theory Spec2Isabelle
  imports Main "HOL-Library.Char_ord" "HOL-Library.List_Lexorder"
begin

section \<open>The REST trigger of qingcloudhx/contrib (trigger/rest/trigger.go)\<close>

text \<open>
  The development embeds \<^verbatim>\<open>Trigger.Initialize\<close>, \<^verbatim>\<open>newActionHandler\<close> and
  \<^verbatim>\<open>getFileDetails\<close> of \<^verbatim>\<open>trigger/rest/trigger.go\<close>. Go strings are byte strings
  (\<^typ>\<open>string\<close>), Go errors are values of the type \<open>error\<close>, and a Go map is an association
  list kept in ascending key order with no key twice, so that equal maps are equal lists.
  The functions of the Go standard library that the handler calls are written out from
  their documentation, each under its Go name.
\<close>

subsection \<open>Errors, maps and dynamic values\<close>

datatype error = io_EOF | io_ErrUnexpectedEOF | Err string

text \<open>\<^verbatim>\<open>err.Error()\<close>: the text of an error.\<close>

fun error_Error :: "error \<Rightarrow> string" where
  "error_Error io_EOF = ''EOF''"
| "error_Error io_ErrUnexpectedEOF = ''unexpected EOF''"
| "error_Error (Err s) = s"

type_synonym 'a gomap = "(string \<times> 'a) list"

text \<open>\<^verbatim>\<open>m[k] = v\<close> on a Go map.\<close>

fun gomap_set :: "string \<Rightarrow> 'a \<Rightarrow> 'a gomap \<Rightarrow> 'a gomap" where
  "gomap_set k v [] = [(k, v)]"
| "gomap_set k v ((k', v') # m) =
     (if k < k' then (k, v) # (k', v') # m
      else if k = k' then (k, v) # m
      else (k', v') # gomap_set k v m)"

text \<open>A map literal \<^verbatim>\<open>map[string]T{k1: v1, ...}\<close>.\<close>

definition gomap_of :: "(string \<times> 'a) list \<Rightarrow> 'a gomap" where
  "gomap_of kvs = fold (\<lambda>(k, v) m. gomap_set k v m) kvs []"

text \<open>
  \<^verbatim>\<open>for key, val := range m\<close>: the iteration order over a Go map is not specified and is
  not guaranteed to be the same from one iteration to the next. The order is an input of
  the model: \<open>ord\<close> rearranges the keys of the map, and the loop visits the entries in
  that order.
\<close>

definition range_map :: "(string list \<Rightarrow> string list) \<Rightarrow> 'a gomap \<Rightarrow> (string \<times> 'a) list" where
  "range_map ord m = List.map_filter (\<lambda>k. map_option (Pair k) (map_of m k)) (ord (map fst m))"

text \<open>An order is one the runtime can choose when it only rearranges distinct keys.\<close>

definition range_order :: "(string list \<Rightarrow> string list) \<Rightarrow> bool" where
  "range_order ord = (\<forall>ks. distinct ks \<longrightarrow> distinct (ord ks) \<and> set (ord ks) = set ks)"

text \<open>
  A value of type \<^verbatim>\<open>interface{}\<close>: \<open>VNil\<close> is the nil interface, \<open>VNumber\<close> a
  \<^verbatim>\<open>float64\<close> written as the decimal literal that denotes it (no arithmetic on it is
  modelled), \<open>VBytes\<close> a \<^verbatim>\<open>[]byte\<close>, \<open>VSlice\<close> a slice and \<open>VMap\<close> a
  \<^verbatim>\<open>map[string]interface{}\<close>.
\<close>

datatype gval =
    VNil
  | VBool bool
  | VInt int
  | VNumber string
  | VString string
  | VBytes string
  | VSlice "gval list"
  | VMap "(string \<times> gval) list"

subsection \<open>package strings\<close>

fun strings_HasPrefix :: "string \<Rightarrow> string \<Rightarrow> bool" where
  "strings_HasPrefix s [] = True"
| "strings_HasPrefix [] (p # ps) = False"
| "strings_HasPrefix (c # cs) (p # ps) = (c = p \<and> strings_HasPrefix cs ps)"

fun strings_Contains :: "string \<Rightarrow> string \<Rightarrow> bool" where
  "strings_Contains [] substr = (substr = [])"
| "strings_Contains (c # cs) substr =
     (strings_HasPrefix (c # cs) substr \<or> strings_Contains cs substr)"

fun strings_Join :: "string list \<Rightarrow> string \<Rightarrow> string" where
  "strings_Join [] sep = []"
| "strings_Join [a] sep = a"
| "strings_Join (a # b # rest) sep = a @ sep @ strings_Join (b # rest) sep"

subsection \<open>package unicode/utf8\<close>

definition RuneError :: nat where
  "RuneError = 0xFFFD"

definition isSurrogate :: "nat \<Rightarrow> bool" where
  "isSurrogate u = (0xD800 \<le> u \<and> u < 0xE000)"

text \<open>The UTF-8 encoding of a code point.\<close>

definition utf8_EncodeRune :: "nat \<Rightarrow> string" where
  "utf8_EncodeRune r =
     (if r < 0x80 then [char_of r]
      else if r < 0x800 then [char_of (0xC0 + r div 64), char_of (0x80 + r mod 64)]
      else if r < 0x10000 then
        [char_of (0xE0 + r div 4096), char_of (0x80 + (r div 64) mod 64), char_of (0x80 + r mod 64)]
      else
        [char_of (0xF0 + r div 262144), char_of (0x80 + (r div 4096) mod 64),
         char_of (0x80 + (r div 64) mod 64), char_of (0x80 + r mod 64)])"

text \<open>
  \<^verbatim>\<open>utf8.DecodeRuneInString\<close>: the first code point of the bytes and its width; a byte
  that does not begin a well-formed encoding (shortest form, no surrogate, at most
  U+10FFFF) is \<^verbatim>\<open>RuneError\<close> of width 1.
\<close>

definition utf8_DecodeRune :: "string \<Rightarrow> nat \<times> nat" where
  "utf8_DecodeRune p =
     (case p of
        [] \<Rightarrow> (RuneError, 0)
      | p0 # rest \<Rightarrow>
          (let b0 = (of_char p0 :: nat) in
           if b0 < 0x80 then (b0, 1)
           else if b0 < 0xC2 \<or> 0xF4 < b0 then (RuneError, 1)
           else
             (let sz = (if b0 < 0xE0 then 2 else if b0 < 0xF0 then 3 else 4 :: nat);
                  lo = (if b0 = 0xE0 then 0xA0 else if b0 = 0xF0 then 0x90 else 0x80 :: nat);
                  hi = (if b0 = 0xED then 0x9F else if b0 = 0xF4 then 0x8F else 0xBF :: nat)
              in if length p < sz then (RuneError, 1)
                 else
                   (let b1 = (of_char (p ! 1) :: nat) in
                    if b1 < lo \<or> hi < b1 then (RuneError, 1)
                    else if sz = 2 then ((b0 mod 32) * 64 + b1 mod 64, 2)
                    else
                      (let b2 = (of_char (p ! 2) :: nat) in
                       if b2 < 0x80 \<or> 0xBF < b2 then (RuneError, 1)
                       else if sz = 3 then ((b0 mod 16) * 4096 + (b1 mod 64) * 64 + b2 mod 64, 3)
                       else
                         (let b3 = (of_char (p ! 3) :: nat) in
                          if b3 < 0x80 \<or> 0xBF < b3 then (RuneError, 1)
                          else ((b0 mod 8) * 262144 + (b1 mod 64) * 4096 + (b2 mod 64) * 64
                                  + b3 mod 64, 4)))))))"

text \<open>\<^verbatim>\<open>for _, c := range s\<close> over a string: its code points, one after the other.\<close>

fun decodeRunes :: "string \<Rightarrow> nat list" where
  "decodeRunes [] = []"
| "decodeRunes (c # cs) =
     fst (utf8_DecodeRune (c # cs)) # decodeRunes (drop (snd (utf8_DecodeRune (c # cs)) - 1) cs)"

text \<open>
  \<^verbatim>\<open>utf8.AppendRune\<close>: a surrogate or a value beyond U+10FFFF is written as U+FFFD.
\<close>

definition utf8_AppendRune :: "nat \<Rightarrow> string" where
  "utf8_AppendRune r =
     (if 0x10FFFF < r \<or> isSurrogate r then utf8_EncodeRune RuneError else utf8_EncodeRune r)"

subsection \<open>package strconv\<close>

definition isDigit :: "char \<Rightarrow> bool" where
  "isDigit c = (48 \<le> (of_char c :: nat) \<and> (of_char c :: nat) \<le> 57)"

text \<open>\<^verbatim>\<open>strconv.Itoa\<close>: an integer in decimal.\<close>

function decimal :: "nat \<Rightarrow> string" where
  "decimal n = (if n < 10 then [char_of (48 + n)] else decimal (n div 10) @ [char_of (48 + n mod 10)])"
  by pat_completeness auto
termination
  by (relation "measure id") auto

declare decimal.simps [simp del]

definition strconv_Itoa :: "int \<Rightarrow> string" where
  "strconv_Itoa i = (if i < 0 then CHR ''-'' # decimal (nat (- i)) else decimal (nat i))"

definition digitsValue :: "string \<Rightarrow> int" where
  "digitsValue ds = foldl (\<lambda>n c. 10 * n + (of_char c - 48)) 0 ds"

text \<open>
  \<^verbatim>\<open>strconv.ParseInt(s, 10, 64)\<close>: an optional sign and decimal digits, within the range
  of \<^verbatim>\<open>int64\<close>; \<open>None\<close> is an error.
\<close>

definition strconv_ParseInt :: "string \<Rightarrow> int option" where
  "strconv_ParseInt s =
     (let neg = (s \<noteq> [] \<and> hd s = CHR ''-'');
          ds = (if s \<noteq> [] \<and> (hd s = CHR ''+'' \<or> hd s = CHR ''-'') then tl s else s)
      in if ds = [] \<or> \<not> list_all isDigit ds then None
         else if neg then
           (if digitsValue ds \<le> 2 ^ 63 then Some (- digitsValue ds) else None)
         else
           (if digitsValue ds < 2 ^ 63 then Some (digitsValue ds) else None))"

text \<open>
  The exponent of a decimal floating-point literal as \<^verbatim>\<open>strconv\<close> reads it: it stops
  adding digits once the exponent has reached 10000.
\<close>

definition exponentValue :: "string \<Rightarrow> int" where
  "exponentValue ds = foldl (\<lambda>e c. if e < 10000 then 10 * e + (of_char c - 48) else e) 0 ds"

text \<open>
  \<^verbatim>\<open>strconv.ParseFloat(s, 64)\<close> on a number literal of JSON returns an error exactly when
  the literal is out of the range of \<^verbatim>\<open>float64\<close>: when its magnitude is at least
  \<open>2^1024 - 2^970\<close>, half way from the largest \<^verbatim>\<open>float64\<close> to \<open>2^1024\<close>, so that it
  rounds to an infinity. The literal is \<open>d * 10^k\<close> for the number \<open>d\<close> that its digits
  write without the point. (Go keeps the first 800 significant digits of a literal; longer
  literals are read here as they are written.)
\<close>

definition floatOutOfRange :: "string \<Rightarrow> bool" where
  "floatOutOfRange lit =
     (let s = (if lit \<noteq> [] \<and> hd lit = CHR ''-'' then tl lit else lit);
          ip = takeWhile isDigit s;
          r1 = dropWhile isDigit s;
          fp = (if r1 \<noteq> [] \<and> hd r1 = CHR ''.'' then takeWhile isDigit (tl r1) else []);
          r2 = (if r1 \<noteq> [] \<and> hd r1 = CHR ''.'' then dropWhile isDigit (tl r1) else r1);
          ex = (if r2 = [] then [] else tl r2);
          ed = (if ex \<noteq> [] \<and> (hd ex = CHR ''+'' \<or> hd ex = CHR ''-'') then tl ex else ex);
          e = (if ex \<noteq> [] \<and> hd ex = CHR ''-'' then - exponentValue ed else exponentValue ed);
          k = e - int (length fp);
          d = digitsValue (ip @ fp)
      in if 0 \<le> k then 2 ^ 1024 - 2 ^ 970 \<le> d * 10 ^ nat k
         else (2 ^ 1024 - 2 ^ 970) * 10 ^ nat (- k) \<le> d)"

subsection \<open>package encoding/json: reading a value\<close>

text \<open>
  The scanner of \<^verbatim>\<open>encoding/json\<close> is a state machine over the bytes with a stack of
  open arrays and objects, at most 10000 deep; the model builds the document it has read
  on that stack. The decoder then turns the document into a value of type
  \<^verbatim>\<open>interface{}\<close>: an object becomes a map, so a repeated key keeps its last value, and
  a number becomes a \<^verbatim>\<open>float64\<close>. The model keeps the number as its literal: which
  \<^verbatim>\<open>float64\<close> it is, is not computed, only whether it is in range.
\<close>

definition isSpace :: "char \<Rightarrow> bool" where
  "isSpace c = (c = CHR '' '' \<or> c = CHR 0x09 \<or> c = CHR 0x0D \<or> c = CHR 0x0A)"

definition ishex :: "char \<Rightarrow> bool" where
  "ishex c = (isDigit c
     \<or> (97 \<le> (of_char c :: nat) \<and> (of_char c :: nat) \<le> 102)
     \<or> (65 \<le> (of_char c :: nat) \<and> (of_char c :: nat) \<le> 70))"

definition unhex :: "char \<Rightarrow> nat" where
  "unhex c =
     (if isDigit c then of_char c - 48
      else if 97 \<le> (of_char c :: nat) \<and> (of_char c :: nat) \<le> 102 then of_char c - 97 + 10
      else if 65 \<le> (of_char c :: nat) \<and> (of_char c :: nat) \<le> 70 then of_char c - 65 + 10
      else 0)"

definition hexDigit :: "nat \<Rightarrow> char" where
  "hexDigit n = (if n < 10 then char_of (48 + n) else char_of (87 + n))"

text \<open>
  The content of a string literal: a byte, or the code unit of a \<^verbatim>\<open>\uXXXX\<close> escape. Two
  escapes that form a surrogate pair are one code point; a lone surrogate is U+FFFD, and
  so is every byte of the literal that does not begin a well-formed UTF-8 encoding.
\<close>

datatype piece = Byte char | Unit nat

fun unquotePieces :: "piece list \<Rightarrow> string" where
  "unquotePieces [] = []"
| "unquotePieces (Byte c # ps) = c # unquotePieces ps"
| "unquotePieces (Unit h # Unit l # ps) =
     (if 0xD800 \<le> h \<and> h < 0xDC00 \<and> 0xDC00 \<le> l \<and> l < 0xE000
      then utf8_EncodeRune (0x10000 + (h - 0xD800) * 1024 + (l - 0xDC00)) @ unquotePieces ps
      else utf8_EncodeRune (if isSurrogate h then 0xFFFD else h) @ unquotePieces (Unit l # ps))"
| "unquotePieces (Unit u # ps) =
     utf8_EncodeRune (if isSurrogate u then 0xFFFD else u) @ unquotePieces ps"

definition unquote :: "piece list \<Rightarrow> string" where
  "unquote ps = concat (map utf8_AppendRune (decodeRunes (unquotePieces ps)))"

text \<open>What the scanner has read: a JSON text, the members of an object in their order.\<close>

datatype jdoc =
    JNull
  | JBool bool
  | JNumber string
  | JString string
  | JArray "jdoc list"
  | JObject "(string \<times> jdoc) list"

datatype frame =
    FArray "jdoc list"
  | FObject "(string \<times> jdoc) list"
  | FKey "(string \<times> jdoc) list" string

datatype numstate = NNeg | N0 | N1 | NDot | NDot0 | NE | NESign | NE0

datatype phase =
    BeginValue
  | BeginValueOrEmpty
  | BeginStringOrEmpty
  | BeginString
  | EndValue
  | InString "piece list"
  | InStringEsc "piece list"
  | InStringEscU "piece list" "char list"
  | InNumber numstate string
  | InLiteral string string jdoc

text \<open>
  One step of the scanner: it goes on, or the top-level value is complete with this byte
  (\<open>Done\<close>) or was complete before it (\<open>Ended\<close>), or the byte is a syntax error.
\<close>

datatype scan = Continue "frame list" phase | Done jdoc | Ended jdoc | Fail string

text \<open>
  \<^verbatim>\<open>quoteChar\<close>: the byte between single quotes, written as \<^verbatim>\<open>strconv.Quote\<close> writes
  the code point of that number: as it is when it prints, as an escape otherwise.
\<close>

definition quoteChar :: "char \<Rightarrow> string" where
  "quoteChar c =
     (let r = (of_char c :: nat) in
      if c = CHR 0x27 then [CHR 0x27, CHR 0x5C, CHR 0x27, CHR 0x27]
      else if c = CHR 0x22 then [CHR 0x27, CHR 0x22, CHR 0x27]
      else [CHR 0x27] @
        (if c = CHR 0x5C then [CHR 0x5C, CHR 0x5C]
         else if 0x20 \<le> r \<and> r \<le> 0x7E then [c]
         else if 0xA1 \<le> r \<and> r \<noteq> 0xAD then utf8_EncodeRune r
         else if r = 0x07 then [CHR 0x5C, CHR ''a'']
         else if r = 0x08 then [CHR 0x5C, CHR ''b'']
         else if r = 0x0C then [CHR 0x5C, CHR ''f'']
         else if r = 0x0A then [CHR 0x5C, CHR ''n'']
         else if r = 0x0D then [CHR 0x5C, CHR ''r'']
         else if r = 0x09 then [CHR 0x5C, CHR ''t'']
         else if r = 0x0B then [CHR 0x5C, CHR ''v'']
         else if r < 0x20 \<or> r = 0x7F then [CHR 0x5C, CHR ''x'', hexDigit (r div 16), hexDigit (r mod 16)]
         else [CHR 0x5C, CHR ''u'', CHR ''0'', CHR ''0'', hexDigit (r div 16), hexDigit (r mod 16)])
        @ [CHR 0x27])"

definition invalidChar :: "char \<Rightarrow> string \<Rightarrow> scan" where
  "invalidChar c context = Fail (''invalid character '' @ quoteChar c @ '' '' @ context)"

text \<open>A value is complete: it goes into the innermost open array or object.\<close>

fun valueDone :: "frame list \<Rightarrow> jdoc \<Rightarrow> scan" where
  "valueDone [] v = Done v"
| "valueDone (FArray es # st) v = Continue (FArray (es @ [v]) # st) EndValue"
| "valueDone (FKey m k # st) v = Continue (FObject (m @ [(k, v)]) # st) EndValue"
| "valueDone (FObject m # st) v =
     (case v of JString k \<Rightarrow> Continue (FKey m k # st) EndValue
      | _ \<Rightarrow> Fail ''object key is not a string'')"

fun stateEndValue :: "frame list \<Rightarrow> char \<Rightarrow> scan" where
  "stateEndValue [] c = invalidChar c ''after top-level value''"
| "stateEndValue (FKey m k # st) c =
     (if isSpace c then Continue (FKey m k # st) EndValue
      else if c = CHR '':'' then Continue (FKey m k # st) BeginValue
      else invalidChar c ''after object key'')"
| "stateEndValue (FObject m # st) c =
     (if isSpace c then Continue (FObject m # st) EndValue
      else if c = CHR '','' then Continue (FObject m # st) BeginString
      else if c = CHR ''}'' then valueDone st (JObject m)
      else invalidChar c ''after object key:value pair'')"
| "stateEndValue (FArray es # st) c =
     (if isSpace c then Continue (FArray es # st) EndValue
      else if c = CHR '','' then Continue (FArray es # st) BeginValue
      else if c = CHR '']'' then valueDone st (JArray es)
      else invalidChar c ''after array element'')"

text \<open>\<^verbatim>\<open>pushParseState\<close>: an array or object opens, unless that nests too deep.\<close>

definition maxNestingDepth :: nat where
  "maxNestingDepth = 10000"

definition pushParseState :: "char \<Rightarrow> frame \<Rightarrow> frame list \<Rightarrow> phase \<Rightarrow> scan" where
  "pushParseState c f st ph =
     (if length (f # st) \<le> maxNestingDepth then Continue (f # st) ph
      else invalidChar c ''exceeded max depth'')"

definition stateBeginValue :: "frame list \<Rightarrow> char \<Rightarrow> scan" where
  "stateBeginValue st c =
     (if isSpace c then Continue st BeginValue
      else if c = CHR ''{'' then pushParseState c (FObject []) st BeginStringOrEmpty
      else if c = CHR ''['' then pushParseState c (FArray []) st BeginValueOrEmpty
      else if c = CHR 0x22 then Continue st (InString [])
      else if c = CHR ''-'' then Continue st (InNumber NNeg [c])
      else if c = CHR ''0'' then Continue st (InNumber N0 [c])
      else if c = CHR ''t'' then Continue st (InLiteral ''true'' ''rue'' (JBool True))
      else if c = CHR ''f'' then Continue st (InLiteral ''false'' ''alse'' (JBool False))
      else if c = CHR ''n'' then Continue st (InLiteral ''null'' ''ull'' JNull)
      else if isDigit c then Continue st (InNumber N1 [c])
      else invalidChar c ''looking for beginning of value'')"

definition stateBeginString :: "frame list \<Rightarrow> char \<Rightarrow> scan" where
  "stateBeginString st c =
     (if isSpace c then Continue st BeginString
      else if c = CHR 0x22 then Continue st (InString [])
      else invalidChar c ''looking for beginning of object key string'')"

text \<open>The number literal \<open>lit\<close> ends before the byte \<open>c\<close>, which is then read after it.\<close>

definition numberDone :: "frame list \<Rightarrow> string \<Rightarrow> char \<Rightarrow> scan" where
  "numberDone st lit c =
     (case valueDone st (JNumber lit) of
        Continue st' ph \<Rightarrow> stateEndValue st' c
      | Done v \<Rightarrow> Ended v
      | Ended v \<Rightarrow> Ended v
      | Fail msg \<Rightarrow> Fail msg)"

definition state0 :: "frame list \<Rightarrow> string \<Rightarrow> char \<Rightarrow> scan" where
  "state0 st lit c =
     (if c = CHR ''.'' then Continue st (InNumber NDot (lit @ [c]))
      else if c = CHR ''e'' \<or> c = CHR ''E'' then Continue st (InNumber NE (lit @ [c]))
      else numberDone st lit c)"

definition stateESign :: "frame list \<Rightarrow> string \<Rightarrow> char \<Rightarrow> scan" where
  "stateESign st lit c =
     (if isDigit c then Continue st (InNumber NE0 (lit @ [c]))
      else invalidChar c ''in exponent of numeric literal'')"

fun stateNumber :: "frame list \<Rightarrow> numstate \<Rightarrow> string \<Rightarrow> char \<Rightarrow> scan" where
  "stateNumber st NNeg lit c =
     (if c = CHR ''0'' then Continue st (InNumber N0 (lit @ [c]))
      else if isDigit c then Continue st (InNumber N1 (lit @ [c]))
      else invalidChar c ''in numeric literal'')"
| "stateNumber st N1 lit c =
     (if isDigit c then Continue st (InNumber N1 (lit @ [c]))
      else state0 st lit c)"
| "stateNumber st N0 lit c = state0 st lit c"
| "stateNumber st NDot lit c =
     (if isDigit c then Continue st (InNumber NDot0 (lit @ [c]))
      else invalidChar c ''after decimal point in numeric literal'')"
| "stateNumber st NDot0 lit c =
     (if isDigit c then Continue st (InNumber NDot0 (lit @ [c]))
      else if c = CHR ''e'' \<or> c = CHR ''E'' then Continue st (InNumber NE (lit @ [c]))
      else numberDone st lit c)"
| "stateNumber st NE lit c =
     (if c = CHR ''+'' \<or> c = CHR ''-'' then Continue st (InNumber NESign (lit @ [c]))
      else stateESign st lit c)"
| "stateNumber st NESign lit c = stateESign st lit c"
| "stateNumber st NE0 lit c =
     (if isDigit c then Continue st (InNumber NE0 (lit @ [c]))
      else numberDone st lit c)"

definition stateInStringEsc :: "frame list \<Rightarrow> piece list \<Rightarrow> char \<Rightarrow> scan" where
  "stateInStringEsc st ps c =
     (if c = CHR ''b'' then Continue st (InString (ps @ [Byte (CHR 0x08)]))
      else if c = CHR ''f'' then Continue st (InString (ps @ [Byte (CHR 0x0C)]))
      else if c = CHR ''n'' then Continue st (InString (ps @ [Byte (CHR 0x0A)]))
      else if c = CHR ''r'' then Continue st (InString (ps @ [Byte (CHR 0x0D)]))
      else if c = CHR ''t'' then Continue st (InString (ps @ [Byte (CHR 0x09)]))
      else if c = CHR 0x5C \<or> c = CHR ''/'' \<or> c = CHR 0x22 then Continue st (InString (ps @ [Byte c]))
      else if c = CHR ''u'' then Continue st (InStringEscU ps [])
      else invalidChar c ''in string escape code'')"

definition hexUnit :: "char list \<Rightarrow> nat" where
  "hexUnit ds = foldl (\<lambda>n d. 16 * n + unhex d) 0 ds"

fun step :: "frame list \<Rightarrow> phase \<Rightarrow> char \<Rightarrow> scan" where
  "step st BeginValue c = stateBeginValue st c"
| "step st BeginValueOrEmpty c =
     (if isSpace c then Continue st BeginValueOrEmpty
      else if c = CHR '']'' then stateEndValue st c
      else stateBeginValue st c)"
| "step st BeginStringOrEmpty c =
     (if isSpace c then Continue st BeginStringOrEmpty
      else if c = CHR ''}'' then stateEndValue st c
      else stateBeginString st c)"
| "step st BeginString c = stateBeginString st c"
| "step st EndValue c = stateEndValue st c"
| "step st (InString ps) c =
     (if c = CHR 0x22 then valueDone st (JString (unquote ps))
      else if c = CHR 0x5C then Continue st (InStringEsc ps)
      else if (of_char c :: nat) < 0x20 then invalidChar c ''in string literal''
      else Continue st (InString (ps @ [Byte c])))"
| "step st (InStringEsc ps) c = stateInStringEsc st ps c"
| "step st (InStringEscU ps ds) c =
     (if ishex c then
        (if length ds = 3 then Continue st (InString (ps @ [Unit (hexUnit (ds @ [c]))]))
         else Continue st (InStringEscU ps (ds @ [c])))
      else invalidChar c (''in '' @ [CHR 0x5C] @ ''u hexadecimal character escape''))"
| "step st (InNumber ns lit) c = stateNumber st ns lit c"
| "step st (InLiteral name rest v) c =
     (case rest of
        [] \<Rightarrow> invalidChar c (''in literal '' @ name)
      | e # rest' \<Rightarrow>
          if c = e then (if rest' = [] then valueDone st v else Continue st (InLiteral name rest' v))
          else invalidChar c (''in literal '' @ name @ '' (expecting '' @ quoteChar e @ '')''))"

text \<open>
  Reading one value from the front of the bytes: the value and the bytes after it, a
  syntax error, or the bytes ended first.
\<close>

datatype reading = Value jdoc string | Syntax string | Exhausted "frame list" phase

fun readValue :: "frame list \<Rightarrow> phase \<Rightarrow> string \<Rightarrow> reading" where
  "readValue st ph [] = Exhausted st ph"
| "readValue st ph (c # cs) =
     (case step st ph c of
        Continue st' ph' \<Rightarrow> readValue st' ph' cs
      | Done v \<Rightarrow> Value v cs
      | Ended v \<Rightarrow> Value v (c # cs)
      | Fail msg \<Rightarrow> Syntax msg)"

text \<open>At the end of the input a top-level number that may stop here is a value.\<close>

fun valueAtEOF :: "frame list \<Rightarrow> phase \<Rightarrow> jdoc option" where
  "valueAtEOF [] (InNumber ns lit) =
     (if ns = N0 \<or> ns = N1 \<or> ns = NDot0 \<or> ns = NE0 then Some (JNumber lit) else None)"
| "valueAtEOF st ph = None"

text \<open>
  An \<^verbatim>\<open>io.Reader\<close> as the handler sees it: the bytes it delivers, and the error that ends
  them when they do not simply end (\<open>None\<close> is the end of the stream, \<^verbatim>\<open>io.EOF\<close>, which
  \<^verbatim>\<open>ReadFrom\<close>, \<^verbatim>\<open>ReadAll\<close> and \<^verbatim>\<open>io.Copy\<close> do not report as an error).
\<close>

type_synonym reader = "string \<times> error option"

text \<open>
  The decoder stores a document in a variable of type \<^verbatim>\<open>interface{}\<close>. A number out of
  the range of \<^verbatim>\<open>float64\<close> is an error; the decoder saves the first such error
  (\<^verbatim>\<open>d.saveError\<close>), goes on, and returns it at the end.
\<close>

definition firstError :: "error option list \<Rightarrow> error option" where
  "firstError es = (case List.map_filter (\<lambda>e. e) es of [] \<Rightarrow> None | e # rest \<Rightarrow> Some e)"

fun savedError :: "jdoc \<Rightarrow> error option" where
  "savedError (JNumber lit) =
     (if floatOutOfRange lit
      then Some (Err (''json: cannot unmarshal number '' @ lit @ '' into Go value of type float64''))
      else None)"
| "savedError (JArray ds) = firstError (map savedError ds)"
| "savedError (JObject kvs) = firstError (map (\<lambda>(k, v). savedError v) kvs)"
| "savedError d = None"

fun valueInterface :: "jdoc \<Rightarrow> gval" where
  "valueInterface JNull = VNil"
| "valueInterface (JBool b) = VBool b"
| "valueInterface (JNumber lit) = VNumber lit"
| "valueInterface (JString s) = VString s"
| "valueInterface (JArray ds) = VSlice (map valueInterface ds)"
| "valueInterface (JObject kvs) = VMap (gomap_of (map (\<lambda>(k, v). (k, valueInterface v)) kvs))"

definition unmarshal :: "jdoc \<Rightarrow> error + gval" where
  "unmarshal d = (case savedError d of Some err \<Rightarrow> Inl err | None \<Rightarrow> Inr (valueInterface d))"

text \<open>
  \<^verbatim>\<open>json.NewDecoder(r).Decode(&content)\<close> with \<^verbatim>\<open>content\<close> of type \<^verbatim>\<open>interface{}\<close>:
  the first value of the stream; what follows it is left unread. A stream holding nothing
  but white space gives \<^verbatim>\<open>io.EOF\<close>, one that stops inside a value
  \<^verbatim>\<open>io.ErrUnexpectedEOF\<close>.
\<close>

definition json_Decoder_Decode :: "reader \<Rightarrow> error + gval" where
  "json_Decoder_Decode r =
     (case readValue [] BeginValue (fst r) of
        Value d rest \<Rightarrow> unmarshal d
      | Syntax msg \<Rightarrow> Inl (Err msg)
      | Exhausted st ph \<Rightarrow>
          (case snd r of
             Some err \<Rightarrow> Inl err
           | None \<Rightarrow>
               (case valueAtEOF st ph of
                  Some d \<Rightarrow> unmarshal d
                | None \<Rightarrow> if st = [] \<and> ph = BeginValue then Inl io_EOF
                          else Inl io_ErrUnexpectedEOF)))"

text \<open>
  \<^verbatim>\<open>json.Unmarshal(data, &v)\<close> with \<^verbatim>\<open>v\<close> of type \<^verbatim>\<open>interface{}\<close>: the whole of
  \<^verbatim>\<open>data\<close> is one value between white space.
\<close>

definition json_Unmarshal :: "string \<Rightarrow> error + gval" where
  "json_Unmarshal data =
     (case readValue [] BeginValue data of
        Value d rest \<Rightarrow>
          (case dropWhile isSpace rest of
             [] \<Rightarrow> unmarshal d
           | c # cs \<Rightarrow> Inl (Err (''invalid character '' @ quoteChar c @ '' after top-level value'')))
      | Syntax msg \<Rightarrow> Inl (Err msg)
      | Exhausted st ph \<Rightarrow>
          (case valueAtEOF st ph of
             Some d \<Rightarrow> unmarshal d
           | None \<Rightarrow> Inl (Err ''unexpected end of JSON input'')))"

subsection \<open>package encoding/json: writing a value\<close>

text \<open>
  An ASCII byte of a string inside the quotes of its JSON encoding, with the encoder's
  default HTML escaping.
\<close>

definition escapeByte :: "char \<Rightarrow> string" where
  "escapeByte b =
     (if b = CHR 0x5C \<or> b = CHR 0x22 then [CHR 0x5C, b]
      else if b = CHR 0x08 then [CHR 0x5C, CHR ''b'']
      else if b = CHR 0x0C then [CHR 0x5C, CHR ''f'']
      else if b = CHR 0x0A then [CHR 0x5C, CHR ''n'']
      else if b = CHR 0x0D then [CHR 0x5C, CHR ''r'']
      else if b = CHR 0x09 then [CHR 0x5C, CHR ''t'']
      else if (of_char b :: nat) < 0x20 \<or> b = CHR ''<'' \<or> b = CHR ''>'' \<or> b = CHR ''&''
        then [CHR 0x5C, CHR ''u'', CHR ''0'', CHR ''0'',
              hexDigit ((of_char b :: nat) div 16), hexDigit ((of_char b :: nat) mod 16)]
      else [b])"

text \<open>
  The bytes of a string inside the quotes: well-formed UTF-8 beyond ASCII is copied,
  except that U+2028 and U+2029 are escaped, and a byte that does not begin a well-formed
  encoding is written as the escape of U+FFFD.
\<close>

fun escapeString :: "string \<Rightarrow> string" where
  "escapeString [] = []"
| "escapeString (c # cs) =
     (if (of_char c :: nat) < 0x80 then escapeByte c @ escapeString cs
      else if utf8_DecodeRune (c # cs) = (RuneError, 1)
        then [CHR 0x5C] @ ''ufffd'' @ escapeString cs
      else if fst (utf8_DecodeRune (c # cs)) = 0x2028 \<or> fst (utf8_DecodeRune (c # cs)) = 0x2029
        then [CHR 0x5C] @ ''u202'' @ [hexDigit (fst (utf8_DecodeRune (c # cs)) mod 16)]
             @ escapeString (drop (snd (utf8_DecodeRune (c # cs)) - 1) cs)
      else take (snd (utf8_DecodeRune (c # cs))) (c # cs)
             @ escapeString (drop (snd (utf8_DecodeRune (c # cs)) - 1) cs))"

definition quoteString :: "string \<Rightarrow> string" where
  "quoteString s = [CHR 0x22] @ escapeString s @ [CHR 0x22]"

definition base64Char :: "nat \<Rightarrow> char" where
  "base64Char n =
     (''ABCDEFGHIJKLMNOPQRSTUVWXYZabcdefghijklmnopqrstuvwxyz0123456789+/'') ! (n mod 64)"

text \<open>\<^verbatim>\<open>base64.StdEncoding.EncodeToString\<close>, the JSON encoding of a \<^verbatim>\<open>[]byte\<close>.\<close>

fun base64_EncodeToString :: "string \<Rightarrow> string" where
  "base64_EncodeToString [] = []"
| "base64_EncodeToString [a] =
     (let x = (of_char a :: nat) in
      [base64Char (x div 4), base64Char ((x mod 4) * 16), CHR ''='', CHR ''=''])"
| "base64_EncodeToString [a, b] =
     (let x = (of_char a :: nat); y = (of_char b :: nat) in
      [base64Char (x div 4), base64Char ((x mod 4) * 16 + y div 16),
       base64Char ((y mod 16) * 4), CHR ''=''])"
| "base64_EncodeToString (a # b # c # rest) =
     (let x = (of_char a :: nat); y = (of_char b :: nat); z = (of_char c :: nat) in
      [base64Char (x div 4), base64Char ((x mod 4) * 16 + y div 16),
       base64Char ((y mod 16) * 4 + z div 64), base64Char (z mod 64)]
      @ base64_EncodeToString rest)"

text \<open>
  \<^verbatim>\<open>json.Marshal\<close>: an object is written in ascending key order. A \<^verbatim>\<open>float64\<close> is
  written as the literal that the model holds for it (Go writes the shortest literal that
  denotes it).
\<close>

fun json_Marshal :: "gval \<Rightarrow> string" where
  "json_Marshal VNil = ''null''"
| "json_Marshal (VBool b) = (if b then ''true'' else ''false'')"
| "json_Marshal (VInt i) = strconv_Itoa i"
| "json_Marshal (VNumber lit) = lit"
| "json_Marshal (VString s) = quoteString s"
| "json_Marshal (VBytes b) = [CHR 0x22] @ base64_EncodeToString b @ [CHR 0x22]"
| "json_Marshal (VSlice vs) = ''['' @ strings_Join (map json_Marshal vs) '','' @ '']''"
| "json_Marshal (VMap m) =
     ''{'' @ strings_Join (map (\<lambda>(k, v). quoteString k @ '':'' @ json_Marshal v) m) '','' @ ''}''"

subsection \<open>packages unicode and strings: case mapping\<close>

text \<open>
  \<^verbatim>\<open>strings.Map\<close> for a mapping that drops no code point: every code point of the string
  is mapped and written again, an ill-formed byte as U+FFFD.
\<close>

definition strings_Map :: "(nat \<Rightarrow> nat) \<Rightarrow> string \<Rightarrow> string" where
  "strings_Map mapping s = concat (map (\<lambda>c. utf8_AppendRune (mapping c)) (decodeRunes s))"

text \<open>
  \<^verbatim>\<open>unicode.ToUpper\<close> and \<^verbatim>\<open>unicode.ToLower\<close>: the ASCII letters are mapped by
  arithmetic, every other code point by the case tables of package \<^verbatim>\<open>unicode\<close>. The
  tables are not written out: \<open>upper\<close> and \<open>lower\<close> stand for them.
\<close>

definition unicode_ToUpper :: "(nat \<Rightarrow> nat) \<Rightarrow> nat \<Rightarrow> nat" where
  "unicode_ToUpper upper r =
     (if r \<le> 0x7F then (if 97 \<le> r \<and> r \<le> 122 then r - 32 else r) else upper r)"


definition toUpperByte :: "char \<Rightarrow> char" where
  "toUpperByte c =
     (if 97 \<le> (of_char c :: nat) \<and> (of_char c :: nat) \<le> 122
      then char_of ((of_char c :: nat) - 32) else c)"


definition isASCII :: "string \<Rightarrow> bool" where
  "isASCII s = list_all (\<lambda>c. (of_char c :: nat) < 0x80) s"

text \<open>
  \<^verbatim>\<open>strings.ToUpper\<close> and \<^verbatim>\<open>strings.ToLower\<close>: a string of ASCII bytes is mapped byte
  by byte, any other string code point by code point with \<^verbatim>\<open>strings.Map\<close>.
\<close>

definition strings_ToUpper :: "(nat \<Rightarrow> nat) \<Rightarrow> string \<Rightarrow> string" where
  "strings_ToUpper upper s =
     (if isASCII s then map toUpperByte s else strings_Map (unicode_ToUpper upper) s)"


subsection \<open>package net/url\<close>

text \<open>\<^verbatim>\<open>strings.Cut(s, sep)\<close> for a separator of one byte: the text before and after it.\<close>

definition strings_Cut :: "string \<Rightarrow> char \<Rightarrow> string \<times> string" where
  "strings_Cut s sep = (takeWhile (\<lambda>c. c \<noteq> sep) s, drop 1 (dropWhile (\<lambda>c. c \<noteq> sep) s))"

text \<open>
  \<^verbatim>\<open>url.QueryUnescape\<close>: \<^verbatim>\<open>%XX\<close> is the byte XX and \<^verbatim>\<open>+\<close> a space; a \<^verbatim>\<open>%\<close> without
  two hexadecimal digits after it is an error.
\<close>

fun url_QueryUnescape :: "string \<Rightarrow> error + string" where
  "url_QueryUnescape [] = Inr []"
| "url_QueryUnescape (c # s) =
     (if c = CHR ''%'' then
        (if 2 \<le> length s \<and> ishex (s ! 0) \<and> ishex (s ! 1) then
           (case url_QueryUnescape (drop 2 s) of
              Inl err \<Rightarrow> Inl err
            | Inr t \<Rightarrow> Inr (char_of (16 * unhex (s ! 0) + unhex (s ! 1)) # t))
         else Inl (Err (''invalid URL escape '' @ [CHR 0x22] @ take 3 (c # s) @ [CHR 0x22])))
      else
        (case url_QueryUnescape s of
           Inl err \<Rightarrow> Inl err
         | Inr t \<Rightarrow> Inr ((if c = CHR ''+'' then CHR '' '' else c) # t)))"

text \<open>\<^verbatim>\<open>m[key]\<close> on a \<^verbatim>\<open>url.Values\<close>: the values of the key, none when it is absent.\<close>

definition values_of :: "string list gomap \<Rightarrow> string \<Rightarrow> string list" where
  "values_of m key = (case map_of m key of None \<Rightarrow> [] | Some vs \<Rightarrow> vs)"

text \<open>
  The loop of \<^verbatim>\<open>url.ParseQuery\<close> (Go 1.17 and later, where a semicolon is an error):
  the pairs are separated by \<^verbatim>\<open>&\<close>, a pair that does not unescape is skipped and the
  first such error is returned with the map of the others.
\<close>

function parseQuery :: "string list gomap \<Rightarrow> error option \<Rightarrow> string \<Rightarrow> string list gomap \<times> error option" where
  "parseQuery m err query =
     (if query = [] then (m, err)
      else
        (let key = fst (strings_Cut query (CHR ''&''));
             rest = snd (strings_Cut query (CHR ''&''))
         in if strings_Contains key '';''
            then parseQuery m (Some (Err ''invalid semicolon separator in query'')) rest
            else if key = [] then parseQuery m err rest
            else
              (case url_QueryUnescape (fst (strings_Cut key (CHR ''=''))) of
                 Inl err1 \<Rightarrow> parseQuery m (if err = None then Some err1 else err) rest
               | Inr key1 \<Rightarrow>
                   (case url_QueryUnescape (snd (strings_Cut key (CHR ''=''))) of
                      Inl err1 \<Rightarrow> parseQuery m (if err = None then Some err1 else err) rest
                    | Inr value \<Rightarrow>
                        parseQuery (gomap_set key1 (values_of m key1 @ [value]) m) err rest))))"
  by pat_completeness auto
termination
proof -
  have cut: "length (snd (strings_Cut query (CHR ''&''))) < length query"
    if "query \<noteq> []" for query :: string
    using that length_dropWhile_le [of "\<lambda>c. c \<noteq> CHR ''&''" query]
    by (cases query) (auto simp: strings_Cut_def)
  show ?thesis
    by (relation "measure (\<lambda>(m, err, query). length query)") (auto simp: cut)
qed

declare parseQuery.simps [simp del]

definition url_ParseQuery :: "string \<Rightarrow> string list gomap \<times> error option" where
  "url_ParseQuery query = parseQuery [] None query"

subsection \<open>package net/http: requests and response writers\<close>

text \<open>
  The \<^verbatim>\<open>http.ResponseWriter\<close> that the server of \<^verbatim>\<open>net/http\<close> hands to a handler:
  the header map (the handler only ever sets one value for a key), the informational
  status lines sent so far, the status code of the response (\<open>None\<close> until the header is
  written), the content length declared when the header was written (-1 for none, and
  until then), the
  number of body bytes offered since, and the body bytes that \<^verbatim>\<open>Write\<close> has accepted
  (for a \<^verbatim>\<open>HEAD\<close> request the server accepts them and sends none). A \<^verbatim>\<open>Write\<close> that is
  refused returns an error, which the handler only logs; logging is not modelled. The
  model ends where the closure returns: the server then writes the header with status 200
  if none was written.
\<close>

record ResponseWriter =
  wHeader :: "string gomap"
  wInformational :: "int list"
  wStatus :: "int option"
  wContentLength :: int
  wWritten :: int
  wBody :: string

definition Header_Set :: "string \<Rightarrow> string \<Rightarrow> ResponseWriter \<Rightarrow> ResponseWriter" where
  "Header_Set key val w = w\<lparr>wHeader := gomap_set key val (wHeader w)\<rparr>"

definition Header_Del :: "string \<Rightarrow> ResponseWriter \<Rightarrow> ResponseWriter" where
  "Header_Del key w = w\<lparr>wHeader := filter (\<lambda>kv. fst kv \<noteq> key) (wHeader w)\<rparr>"

definition StatusOK :: int where
  "StatusOK = 200"

definition StatusBadRequest :: int where
  "StatusBadRequest = 400"

text \<open>
  The header goes out with its final status: a well-formed \<^verbatim>\<open>Content-Length\<close> of the
  header map is the declared length of the body, an ill-formed one is deleted.
\<close>

definition writeStatus :: "int \<Rightarrow> ResponseWriter \<Rightarrow> ResponseWriter" where
  "writeStatus code w =
     (case map_of (wHeader w) ''Content-Length'' of
        None \<Rightarrow> w\<lparr>wStatus := Some code, wContentLength := - 1\<rparr>
      | Some cl \<Rightarrow>
          if cl = [] then w\<lparr>wStatus := Some code, wContentLength := - 1\<rparr>
          else
            (case strconv_ParseInt cl of
               None \<Rightarrow> (Header_Del ''Content-Length'' w)\<lparr>wStatus := Some code, wContentLength := - 1\<rparr>
             | Some v \<Rightarrow>
                 if 0 \<le> v then w\<lparr>wStatus := Some code, wContentLength := v\<rparr>
                 else (Header_Del ''Content-Length'' w)\<lparr>wStatus := Some code, wContentLength := - 1\<rparr>))"

text \<open>
  \<^verbatim>\<open>w.WriteHeader(code)\<close>: a call after the header is written is ignored; a code below
  100 or above 999 panics; a code from 100 to 199 other than 101 is sent as an
  informational header and the response header is still to come.
\<close>

definition WriteHeader :: "int \<Rightarrow> ResponseWriter \<Rightarrow> string + ResponseWriter" where
  "WriteHeader code w =
     (if wStatus w \<noteq> None then Inr w
      else if code < 100 \<or> 999 < code then Inl (''invalid WriteHeader code '' @ strconv_Itoa code)
      else if 100 \<le> code \<and> code \<le> 199 \<and> code \<noteq> 101
        then Inr (w\<lparr>wInformational := wInformational w @ [code]\<rparr>)
      else Inr (writeStatus code w))"

definition bodyAllowedForStatus :: "int \<Rightarrow> bool" where
  "bodyAllowedForStatus status =
     (\<not> (100 \<le> status \<and> status \<le> 199) \<and> status \<noteq> 204 \<and> status \<noteq> 304)"

text \<open>
  \<^verbatim>\<open>w.Write(b)\<close>: the header is written with status 200 if it was not yet; bytes are
  refused when the status allows no body (\<^verbatim>\<open>ErrBodyNotAllowed\<close>) and when they exceed the
  declared content length (\<^verbatim>\<open>ErrContentLength\<close>).
\<close>

definition Write :: "string \<Rightarrow> ResponseWriter \<Rightarrow> ResponseWriter" where
  "Write b w =
     (let w1 = (if wStatus w = None then writeStatus StatusOK w else w) in
      if b = [] then w1
      else
        (case wStatus w1 of
           None \<Rightarrow> w1
         | Some status \<Rightarrow>
             if \<not> bodyAllowedForStatus status then w1
             else
               (let w2 = w1\<lparr>wWritten := wWritten w1 + int (length b)\<rparr> in
                if wContentLength w2 \<noteq> - 1 \<and> wContentLength w2 < wWritten w2 then w2
                else w2\<lparr>wBody := wBody w2 @ b\<rparr>)))"

text \<open>
  \<^verbatim>\<open>http.Error(w, error, code)\<close>: a plain-text reply whose body is the message written
  as a line (\<^verbatim>\<open>fmt.Fprintln\<close>); a \<^verbatim>\<open>Content-Length\<close> set before is deleted.
\<close>

definition http_Error :: "ResponseWriter \<Rightarrow> string \<Rightarrow> int \<Rightarrow> string + ResponseWriter" where
  "http_Error w msg code =
     (case WriteHeader code
             (Header_Set ''X-Content-Type-Options'' ''nosniff''
               (Header_Set ''Content-Type'' ''text/plain; charset=utf-8''
                 (Header_Del ''Content-Length'' w))) of
        Inl panic \<Rightarrow> Inl panic
      | Inr w' \<Rightarrow> Inr (Write (msg @ [CHR 0x0A]) w'))"

text \<open>
  \<^verbatim>\<open>json.NewEncoder(w).Encode(v)\<close> writes the JSON encoding of \<open>v\<close> to the stream,
  followed by a newline character.
\<close>

definition json_Encoder_Encode :: "gval \<Rightarrow> ResponseWriter \<Rightarrow> ResponseWriter" where
  "json_Encoder_Encode v w = Write (json_Marshal v @ [CHR 0x0A]) w"

text \<open>\<^verbatim>\<open>h.Get(key)\<close> on a header map, for a key in canonical form: its first value.\<close>

definition Header_Get :: "string list gomap \<Rightarrow> string \<Rightarrow> string" where
  "Header_Get h key = (case map_of h key of None \<Rightarrow> [] | Some [] \<Rightarrow> [] | Some (v # vs) \<Rightarrow> v)"

text \<open>
  A \<^verbatim>\<open>multipart.FileHeader\<close>: \<open>Open\<close> is the outcome of \<^verbatim>\<open>header.Open()\<close>, an error or
  the reader of the file part.
\<close>

record FileHeader =
  Filename :: string
  MIMEHeader :: "string list gomap"
  Size :: int
  Open :: "error + reader"

record multipart_Form =
  Value :: "string list gomap"
  File :: "FileHeader list gomap"

text \<open>
  An \<^verbatim>\<open>http.Request\<close> as the handler reads it: the header map, the raw query of the URL,
  the body, and the outcome of \<^verbatim>\<open>r.ParseMultipartForm(32)\<close> on this request (the parser
  of \<^verbatim>\<open>mime/multipart\<close> is not modelled: what it returns for the request is part of the
  input).
\<close>

record Request =
  Header :: "string list gomap"
  RawQuery :: string
  Body :: reader
  ParseMultipartForm :: "error + multipart_Form"

text \<open>\<^verbatim>\<open>r.URL.Query()\<close> parses the raw query and drops the error.\<close>

definition URL_Query :: "Request \<Rightarrow> string list gomap" where
  "URL_Query r = fst (url_ParseQuery (RawQuery r))"

subsection \<open>The trigger: output, reply and collaborators\<close>

record Output =
  Method :: string
  PathParams :: "string gomap"
  QueryParams :: "string gomap"
  Headers :: "string gomap"
  Content :: gval

record Reply =
  Code :: int
  Data :: gval

text \<open>
  What the handler closure takes from outside \<^verbatim>\<open>trigger.go\<close>, for results of type \<open>'r\<close>
  (Go: \<^verbatim>\<open>map[string]interface{}\<close>). Package \<^verbatim>\<open>cors\<close> and \<^verbatim>\<open>Reply.FromMap\<close> are not
  among the sources: \<open>corsHeaders\<close> are the header lines that
  \<^verbatim>\<open>WriteCorsActualRequestHeaders\<close> sets for the configured policy, \<open>HandlePreflight\<close> is
  the preflight negotiator, \<open>FromMap\<close> turns the results of the business handler into a
  reply or fails.
\<close>

record 'r env =
  corsHeaders :: "(string \<times> string) list"
  HandlePreflight :: "ResponseWriter \<Rightarrow> Request \<Rightarrow> ResponseWriter"
  FromMap :: "'r \<Rightarrow> error + Reply"

text \<open>
  Modelled from the spec: \<^verbatim>\<open>cors.WriteCorsActualRequestHeaders\<close> (package \<^verbatim>\<open>cors\<close> is
  not among the sources) attaches the headers of the policy to the response and writes
  neither a status nor a body.
\<close>

definition WriteCorsActualRequestHeaders :: "(string \<times> string) list \<Rightarrow> ResponseWriter \<Rightarrow> ResponseWriter" where
  "WriteCorsActualRequestHeaders hs w = fold (\<lambda>(k, v) w. Header_Set k v w) hs w"

text \<open>
  Modelled from the spec: \<^verbatim>\<open>Reply.FromMap\<close> (\<^verbatim>\<open>metadata.go\<close> is not among the sources)
  copies the field \<^verbatim>\<open>code\<close>, 0 when it is unset, and the field \<^verbatim>\<open>data\<close>, which may be
  absent.
\<close>

definition Reply_FromMap :: "gval gomap \<Rightarrow> error + Reply" where
  "Reply_FromMap values =
     Inr \<lparr>Code = (case map_of values ''code'' of Some (VInt c) \<Rightarrow> c | _ \<Rightarrow> 0),
          Data = (case map_of values ''data'' of Some d \<Rightarrow> d | None \<Rightarrow> VNil)\<rparr>"

subsection \<open>newActionHandler: decoding the body\<close>

text \<open>
  The outcome of the \<^verbatim>\<open>switch contentType\<close> of the handler: the content, an error (the
  handler answers it with \<^verbatim>\<open>http.Error\<close> and returns), or a run-time panic.
\<close>

datatype decoded = Decoded gval | DecodeError error | DecodePanic string

text \<open>
  \<^verbatim>\<open>for key, val := range m { content[key] = val[0] }\<close>; indexing an empty slice
  panics.
\<close>

fun formContent :: "(string \<times> string list) list \<Rightarrow> gval gomap \<Rightarrow> gval gomap option" where
  "formContent [] content = Some content"
| "formContent ((key, val) # rest) content =
     (case val of
        [] \<Rightarrow> None
      | v # vs \<Rightarrow> formContent rest (gomap_set key (VString v) content))"

text \<open>
  \<^verbatim>\<open>getFileDetails\<close>: the file part is opened and read to its end; either may fail.
\<close>

definition getFileDetails :: "string \<Rightarrow> FileHeader \<Rightarrow> error + gval" where
  "getFileDetails key header =
     (case Open header of
        Inl err \<Rightarrow> Inl err
      | Inr file \<Rightarrow>
          (case snd file of
             Some err \<Rightarrow> Inl err
           | None \<Rightarrow>
               Inr (VMap (gomap_of
                 [(''key'', VString key),
                  (''fileName'', VString (Filename header)),
                  (''fileType'', VString (Header_Get (MIMEHeader header) ''Content-Type'')),
                  (''size'', VInt (Size header)),
                  (''file'', VBytes (fst file))]))))"

text \<open>The inner loop \<^verbatim>\<open>for _, header := range fh\<close> over the files of one field.\<close>

fun fieldFiles :: "string \<Rightarrow> FileHeader list \<Rightarrow> gval list \<Rightarrow> error + gval list" where
  "fieldFiles key [] files = Inr files"
| "fieldFiles key (header # fh) files =
     (case getFileDetails key header of
        Inl err \<Rightarrow> Inl err
      | Inr fileDetails \<Rightarrow> fieldFiles key fh (files @ [fileDetails]))"

text \<open>The outer loop \<^verbatim>\<open>for key, fh := range r.MultipartForm.File\<close>.\<close>

fun formFiles :: "(string \<times> FileHeader list) list \<Rightarrow> gval list \<Rightarrow> error + gval list" where
  "formFiles [] files = Inr files"
| "formFiles ((key, fh) # rest) files =
     (case fieldFiles key fh files of
        Inl err \<Rightarrow> Inl err
      | Inr files' \<Rightarrow> formFiles rest files')"

text \<open>\<^verbatim>\<open>case "application/x-www-form-urlencoded"\<close>.\<close>

definition formBody :: "(string list \<Rightarrow> string list) \<Rightarrow> Request \<Rightarrow> decoded" where
  "formBody ord r =
     (case snd (Body r) of
        Some err \<Rightarrow> DecodeError err
      | None \<Rightarrow>
          (case url_ParseQuery (fst (Body r)) of
             (m, Some err) \<Rightarrow> DecodeError err
           | (m, None) \<Rightarrow>
               (case formContent (range_map ord m) [] of
                  None \<Rightarrow> DecodePanic ''index out of range''
                | Some content \<Rightarrow> Decoded (VMap content))))"

text \<open>\<^verbatim>\<open>case "application/json"\<close>: \<^verbatim>\<open>io.EOF\<close> is an empty body and no error.\<close>

definition jsonBody :: "Request \<Rightarrow> decoded" where
  "jsonBody r =
     (case json_Decoder_Decode (Body r) of
        Inl err \<Rightarrow> (if err = io_EOF then Decoded VNil else DecodeError err)
      | Inr content \<Rightarrow> Decoded content)"

text \<open>The multipart branch of \<^verbatim>\<open>default\<close>.\<close>

definition multipartBody :: "(string list \<Rightarrow> string list) \<Rightarrow> Request \<Rightarrow> decoded" where
  "multipartBody ord r =
     (case ParseMultipartForm r of
        Inl err \<Rightarrow> DecodeError err
      | Inr form \<Rightarrow>
          (case formFiles (range_map ord (File form)) [] of
             Inl err \<Rightarrow> DecodeError err
           | Inr files \<Rightarrow>
               Decoded (VMap (gomap_of [(''body'', VNil), (''files'', VSlice files)]))))"

text \<open>The other branch of \<^verbatim>\<open>default\<close>: the body as a string.\<close>

definition rawBody :: "Request \<Rightarrow> decoded" where
  "rawBody r =
     (case snd (Body r) of
        Some err \<Rightarrow> DecodeError err
      | None \<Rightarrow> Decoded (VString (fst (Body r))))"

definition decodeContent :: "(string list \<Rightarrow> string list) \<Rightarrow> Request \<Rightarrow> decoded" where
  "decodeContent ord r =
     (let contentType = Header_Get (Header r) ''Content-Type'' in
      if contentType = ''application/x-www-form-urlencoded'' then formBody ord r
      else if contentType = ''application/json'' then jsonBody r
      else if strings_Contains contentType ''multipart/form-data'' then multipartBody ord r
      else rawBody r)"

subsection \<open>newActionHandler: writing the reply\<close>

text \<open>
  The end of the closure, from \<^verbatim>\<open>if reply.Data != nil\<close>: the written response, or the
  panic of \<^verbatim>\<open>WriteHeader\<close>.
\<close>

definition writeReply :: "Reply \<Rightarrow> ResponseWriter \<Rightarrow> string + ResponseWriter" where
  "writeReply reply w =
     (if Data reply \<noteq> VNil then
        (let code = (if Code reply = 0 then 200 else Code reply) in
         case Data reply of
           VString t \<Rightarrow>
             (case WriteHeader code
                     (Header_Set ''Content-Type''
                        (case json_Unmarshal t of
                           Inl err \<Rightarrow> ''text/plain; charset=UTF-8''
                         | Inr v \<Rightarrow> ''application/json; charset=UTF-8'') w) of
                Inl panic \<Rightarrow> Inl panic
              | Inr w' \<Rightarrow> Inr (Write t w'))
         | _ \<Rightarrow>
             (case WriteHeader code
                     (Header_Set ''Content-Type'' ''application/json; charset=UTF-8'' w) of
                Inl panic \<Rightarrow> Inl panic
              | Inr w' \<Rightarrow> Inr (json_Encoder_Encode (Data reply) w')))
      else if Code reply > 0 then WriteHeader (Code reply) w
      else WriteHeader StatusOK w)"

subsection \<open>newActionHandler\<close>

text \<open>
  What serving one request leaves behind: the response writer and the calls of the
  business handler, each with the output it was given; or a panic.
\<close>

datatype served = Served ResponseWriter "Output list" | Panicked string "Output list"

fun servedResponse :: "served \<Rightarrow> ResponseWriter option" where
  "servedResponse (Served w calls) = Some w"
| "servedResponse (Panicked msg calls) = None"

fun servedCalls :: "served \<Rightarrow> Output list" where
  "servedCalls (Served w calls) = calls"
| "servedCalls (Panicked msg calls) = calls"

text \<open>The closure returns after its last write, or that write panicked.\<close>

fun returned :: "string + ResponseWriter \<Rightarrow> Output list \<Rightarrow> served" where
  "returned (Inl panic) calls = Panicked panic calls"
| "returned (Inr w) calls = Served w calls"

text \<open>The output before the body is decoded: method, path, query and header maps.\<close>

definition requestOutput ::
  "string \<Rightarrow> (string list \<Rightarrow> string list) \<Rightarrow> Request \<Rightarrow> (string \<times> string) list \<Rightarrow> Output" where
  "requestOutput method ord r ps =
     \<lparr>Method = method,
      PathParams = fold (\<lambda>(k, v) m. gomap_set k v m) ps [],
      QueryParams = fold (\<lambda>(key, val) m. gomap_set key (strings_Join val '','') m)
                      (range_map ord (URL_Query r)) [],
      Headers = fold (\<lambda>(key, val) m. gomap_set key (strings_Join val '','') m)
                  (range_map ord (Header r)) [],
      Content = VNil\<rparr>"

text \<open>
  From \<^verbatim>\<open>handler.Handle\<close> to the end of the closure: the business handler is called
  once, an error of it or of \<^verbatim>\<open>FromMap\<close> is answered with \<^verbatim>\<open>http.Error\<close>, and a reply
  is written.
\<close>

definition invokeHandler ::
  "'r env \<Rightarrow> (Output \<Rightarrow> error + 'r) \<Rightarrow> ResponseWriter \<Rightarrow> Output \<Rightarrow> served" where
  "invokeHandler rt handler w out =
     (case handler out of
        Inl err \<Rightarrow> returned (http_Error w (error_Error err) StatusBadRequest) [out]
      | Inr results \<Rightarrow>
          (case FromMap rt results of
             Inl err \<Rightarrow> returned (http_Error w (error_Error err) StatusBadRequest) [out]
           | Inr reply \<Rightarrow> returned (writeReply reply w) [out]))"

definition newActionHandler ::
  "'r env \<Rightarrow> string \<Rightarrow> (Output \<Rightarrow> error + 'r) \<Rightarrow> (string list \<Rightarrow> string list)
   \<Rightarrow> ResponseWriter \<Rightarrow> Request \<Rightarrow> (string \<times> string) list \<Rightarrow> served" where
  "newActionHandler rt method handler ord w r ps =
     (let w = WriteCorsActualRequestHeaders (corsHeaders rt) w;
          out = requestOutput method ord r ps
      in case decodeContent ord r of
           DecodePanic msg \<Rightarrow> Panicked msg []
         | DecodeError err \<Rightarrow> returned (http_Error w (error_Error err) StatusBadRequest) []
         | Decoded content \<Rightarrow> invokeHandler rt handler w (out\<lparr>Content := content\<rparr>))"

subsection \<open>Trigger.Initialize\<close>

record Settings =
  Port :: int
  EnableTLS :: bool
  CertFile :: string
  KeyFile :: string

record HandlerSettings =
  hsMethod :: string
  hsPath :: string

text \<open>
  A \<^verbatim>\<open>trigger.Handler\<close>: \<open>hSettings\<close> is the outcome of \<^verbatim>\<open>metadata.MapToStruct\<close> on
  the settings of the handler, \<open>Handle\<close> the business logic.
\<close>

record 'r Handler =
  hSettings :: "error + HandlerSettings"
  Handle :: "Output \<Rightarrow> error + 'r"

text \<open>
  What the router holds for a method and a path: the preflight responder, or the action
  handler closed over the upper-cased method and the business handler.
\<close>

datatype 'r handle = handleCorsPreflight | actionHandler string "Output \<Rightarrow> error + 'r"

type_synonym 'r router = "(string \<times> string \<times> 'r handle) list"

text \<open>
  The loop over \<^verbatim>\<open>ctx.GetHandlers()\<close>: the router is the list of registrations in the
  order they are made, \<open>pathMap\<close> the paths seen so far. The checks that \<^verbatim>\<open>httprouter\<close>
  makes on a registration (it panics when a path conflicts with an earlier one of the same
  method) are not modelled.
\<close>

fun initHandlers ::
  "(nat \<Rightarrow> nat) \<Rightarrow> 'r Handler list \<Rightarrow> string gomap \<Rightarrow> 'r router \<Rightarrow> error + 'r router" where
  "initHandlers upper [] pathMap router = Inr router"
| "initHandlers upper (handler # rest) pathMap router =
     (case hSettings handler of
        Inl err \<Rightarrow> Inl err
      | Inr s \<Rightarrow>
          (if map_of pathMap (hsPath s) = None
           then initHandlers upper rest (gomap_set (hsPath s) (hsPath s) pathMap)
                  (router @ [(''OPTIONS'', hsPath s, handleCorsPreflight),
                             (hsMethod s, hsPath s,
                              actionHandler (strings_ToUpper upper (hsMethod s)) (Handle handler))])
           else initHandlers upper rest pathMap
                  (router @ [(hsMethod s, hsPath s,
                              actionHandler (strings_ToUpper upper (hsMethod s)) (Handle handler))])))"

record 'r Server =
  srvAddr :: string
  srvRouter :: "'r router"
  srvTLS :: "(string \<times> string) option"

text \<open>
  \<^verbatim>\<open>Initialize\<close>: \<open>upper\<close> is the upper-case table of package \<^verbatim>\<open>unicode\<close>, and
  \<open>NewServer\<close> (\<^verbatim>\<open>server.go\<close> is not among the sources) is given by the error it
  returns, if any, for the address and the TLS files.
\<close>

definition Initialize ::
  "(nat \<Rightarrow> nat) \<Rightarrow> (string \<Rightarrow> (string \<times> string) option \<Rightarrow> error option) \<Rightarrow> Settings
   \<Rightarrow> 'r Handler list \<Rightarrow> error + 'r Server" where
  "Initialize upper NewServer s handlers =
     (let addr = '':'' @ strconv_Itoa (Port s) in
      case initHandlers upper handlers [] [] of
        Inl err \<Rightarrow> Inl err
      | Inr router \<Rightarrow>
          (let options = (if EnableTLS s then Some (CertFile s, KeyFile s) else None) in
           case NewServer addr options of
             Some err \<Rightarrow> Inl err
           | None \<Rightarrow> Inr \<lparr>srvAddr = addr, srvRouter = router, srvTLS = options\<rparr>))"

text \<open>Running what the router holds for a request it has matched.\<close>

fun serve ::
  "'r env \<Rightarrow> 'r handle \<Rightarrow> (string list \<Rightarrow> string list) \<Rightarrow> ResponseWriter \<Rightarrow> Request
   \<Rightarrow> (string \<times> string) list \<Rightarrow> served" where
  "serve rt handleCorsPreflight ord w r ps = Served (HandlePreflight rt w r) []"
| "serve rt (actionHandler method handler) ord w r ps = newActionHandler rt method handler ord w r ps"

subsection \<open>A fresh writer, plain requests and stock collaborators\<close>

definition newWriter :: ResponseWriter where
  "newWriter = \<lparr>wHeader = [], wInformational = [], wStatus = None, wContentLength = - 1,
                 wWritten = 0, wBody = []\<rparr>"

text \<open>
  A request with the given content type and body, no query and a body that reads to its
  end; \<^verbatim>\<open>ParseMultipartForm\<close> answers a request that is not multipart with
  \<^verbatim>\<open>http.ErrNotMultipart\<close>.
\<close>

definition ErrNotMultipart :: error where
  "ErrNotMultipart = Err (''request Content-Type isn'' @ [CHR 0x27] @ ''t multipart/form-data'')"

definition plainRequest :: "string \<Rightarrow> string \<Rightarrow> Request" where
  "plainRequest contentType b =
     \<lparr>Header = [(''Content-Type'', [contentType])], RawQuery = [], Body = (b, None),
      ParseMultipartForm = Inl ErrNotMultipart\<rparr>"

text \<open>
  A multipart request with boundary \<^verbatim>\<open>x\<close> that uploads the given files, each a field
  name, a file name and the bytes of the file: the body holds one part for each, and the
  form that \<^verbatim>\<open>ParseMultipartForm\<close> returns for it holds the files of each field in the
  order of the parts.
\<close>

definition crlf :: string where
  "crlf = [CHR 0x0D, CHR 0x0A]"

definition disposition :: "string \<Rightarrow> string \<Rightarrow> string" where
  "disposition field name =
     ''form-data; name='' @ [CHR 0x22] @ field @ [CHR 0x22]
       @ ''; filename='' @ [CHR 0x22] @ name @ [CHR 0x22]"

definition partText :: "string \<times> string \<times> string \<Rightarrow> string" where
  "partText part =
     (case part of (field, name, bytes) \<Rightarrow>
        ''--x'' @ crlf @ ''Content-Disposition: '' @ disposition field name @ crlf
          @ ''Content-Type: text/plain'' @ crlf @ crlf @ bytes @ crlf)"

definition uploaded :: "string \<times> string \<times> string \<Rightarrow> FileHeader" where
  "uploaded part =
     (case part of (field, name, bytes) \<Rightarrow>
        \<lparr>Filename = name,
         MIMEHeader = [(''Content-Disposition'', [disposition field name]),
                       (''Content-Type'', [''text/plain''])],
         Size = int (length bytes), Open = Inr (bytes, None)\<rparr>)"

definition filesOf :: "FileHeader list gomap \<Rightarrow> string \<Rightarrow> FileHeader list" where
  "filesOf m field = (case map_of m field of None \<Rightarrow> [] | Some fh \<Rightarrow> fh)"

definition multipartRequest :: "(string \<times> string \<times> string) list \<Rightarrow> Request" where
  "multipartRequest parts =
     \<lparr>Header = [(''Content-Type'', [''multipart/form-data; boundary=x''])], RawQuery = [],
      Body = (concat (map partText parts) @ ''--x--'' @ crlf, None),
      ParseMultipartForm =
        Inr \<lparr>Value = [],
             File = fold (\<lambda>part m. gomap_set (fst part) (filesOf m (fst part) @ [uploaded part]) m)
                      parts []\<rparr>\<rparr>"

definition specEnv :: "(gval gomap) env" where
  "specEnv = \<lparr>corsHeaders = [(''Access-Control-Allow-Origin'', ''*'')],
              HandlePreflight = (\<lambda>w r. Write [] w),
              FromMap = Reply_FromMap\<rparr>"

text \<open>Business handlers that return fixed results, or fail with a fixed error.\<close>

definition replies :: "'r \<Rightarrow> Output \<Rightarrow> error + 'r" where
  "replies results out = Inr results"

definition fails :: "error \<Rightarrow> Output \<Rightarrow> error + gval gomap" where
  "fails err out = Inl err"

subsection \<open>Reading the route table\<close>

text \<open>A registration of the preflight responder for the path \<open>p\<close>.\<close>

definition isPreflight :: "string \<Rightarrow> string \<times> string \<times> 'r handle \<Rightarrow> bool" where
  "isPreflight p e =
     (case e of (m, q, h) \<Rightarrow>
        q = p \<and> (case h of handleCorsPreflight \<Rightarrow> True | actionHandler M f \<Rightarrow> False))"

text \<open>The paths of the handlers whose settings were read.\<close>

fun handlerPaths :: "'r Handler list \<Rightarrow> string list" where
  "handlerPaths [] = []"
| "handlerPaths (handler # rest) =
     (case hSettings handler of
        Inl err \<Rightarrow> handlerPaths rest
      | Inr s \<Rightarrow> hsPath s # handlerPaths rest)"

text \<open>
  What \<open>initHandlers\<close> keeps for every registration: the preflight responder is under
  \<^verbatim>\<open>OPTIONS\<close>, and an action handler is closed over the upper-cased method of its route.
\<close>

definition registered :: "(nat \<Rightarrow> nat) \<Rightarrow> string \<times> string \<times> 'r handle \<Rightarrow> bool" where
  "registered upper e =
     (case e of (m, q, h) \<Rightarrow>
        (case h of handleCorsPreflight \<Rightarrow> m = ''OPTIONS''
         | actionHandler M f \<Rightarrow> M = strings_ToUpper upper m))"

text \<open>A one-route trigger and a form with two file fields.\<close>

definition getRoute :: "(gval gomap) Handler" where
  "getRoute = \<lparr>hSettings = Inr \<lparr>hsMethod = ''get'', hsPath = ''/items''\<rparr>,
               Handle = replies [(''code'', VInt 201)]\<rparr>"

definition postRoute :: "(gval gomap) Handler" where
  "postRoute = \<lparr>hSettings = Inr \<lparr>hsMethod = ''POST'', hsPath = ''/items''\<rparr>,
                Handle = replies [(''code'', VInt 201)]\<rparr>"


definition kelvinUpper :: "nat \<Rightarrow> nat" where
  "kelvinUpper r = r"




definition twoFields :: Request where
  "twoFields = multipartRequest [(''a'', ''1.txt'', ''A''), (''b'', ''2.txt'', ''B'')]"

section \<open>Properties\<close>

subsection \<open>Maps\<close>

lemma map_of_gomap_set: "map_of (gomap_set k v m) = (map_of m)(k \<mapsto> v)"
  by (induction m) (auto simp: fun_eq_iff)

lemma keys_gomap_set: "fst ` set (gomap_set k v m) = insert k (fst ` set m)"
  using arg_cong [OF map_of_gomap_set [of k v m], of dom]
  by (simp add: dom_map_of_conv_image_fst)

lemma set_gomap_set: "set (gomap_set k v m) \<subseteq> insert (k, v) (set m)"
  by (induction m) (auto split: if_splits)

lemma sorted_gomap_set:
  "sorted_wrt (<) (map fst m) \<Longrightarrow> sorted_wrt (<) (map fst (gomap_set k v m))"
proof (induction m)
  case Nil
  then show ?case by simp
next
  case (Cons a m)
  obtain k' v' where a: "a = (k', v')" by (cases a)
  from Cons.prems have tl: "sorted_wrt (<) (map fst m)" and hd: "\<forall>x\<in>set m. k' < fst x"
    by (auto simp: a)
  show ?case
  proof (cases "k < k'")
    case True
    with hd tl show ?thesis by (auto simp: a)
  next
    case False
    show ?thesis
    proof (cases "k = k'")
      case True
      with hd tl show ?thesis by (auto simp: a)
    next
      case ne: False
      with False have "k' < k" by simp
      moreover have "fst ` set (gomap_set k v m) = insert k (fst ` set m)" by (rule keys_gomap_set)
      ultimately have "\<forall>x\<in>fst ` set (gomap_set k v m). k' < x" using hd by auto
      then have "\<forall>x\<in>set (gomap_set k v m). k' < fst x" by simp
      with Cons.IH [OF tl] False ne show ?thesis by (simp add: a)
    qed
  qed
qed

lemma sorted_map_of_eq:
  fixes xs ys :: "(string \<times> 'v) list"
  assumes sx: "sorted_wrt (<) (map fst xs)" and sy: "sorted_wrt (<) (map fst ys)"
    and eq: "map_of xs = map_of ys"
  shows "xs = ys"
proof -
  have dx: "distinct (map fst xs)" and dy: "distinct (map fst ys)"
    and ox: "sorted (map fst xs)" and oy: "sorted (map fst ys)"
    using sx sy by (simp_all add: strict_sorted_iff)
  have "set (map fst xs) = set (map fst ys)"
    using map_of_eq_dom [OF eq] by simp
  with ox oy dx dy have keys: "map fst xs = map fst ys"
    by (simp add: sorted_distinct_set_unique)
  have "map_of (zip (map fst xs) (map snd xs)) = map_of (zip (map fst xs) (map snd ys))"
    using eq keys by (metis zip_map_fst_snd)
  then have "map snd xs = map snd ys"
    using dx by (intro map_of_zip_inject [of _ "map fst xs"]) (simp_all add: keys [symmetric] arg_cong [OF keys, of length, simplified])
  with keys show ?thesis
    by (metis zip_map_fst_snd)
qed

lemma parseQuery_inv:
  "sorted_wrt (<) (map fst m) \<Longrightarrow> \<forall>kv\<in>set m. snd kv \<noteq> [] \<Longrightarrow> parseQuery m err q = (m', err')
   \<Longrightarrow> sorted_wrt (<) (map fst m') \<and> (\<forall>kv\<in>set m'. snd kv \<noteq> [])"
proof (induction m err q rule: parseQuery.induct)
  case (1 m err query)
  have step: "sorted_wrt (<) (map fst (gomap_set k (values_of m k @ [v]) m))
      \<and> (\<forall>kv\<in>set (gomap_set k (values_of m k @ [v]) m). snd kv \<noteq> [])" for k v
    using "1.prems"(1,2) set_gomap_set [of k "values_of m k @ [v]" m]
    by (auto simp: sorted_gomap_set)
  show ?case
  proof (cases "query = []")
    case True
    with "1.prems" show ?thesis by (simp add: parseQuery.simps)
  next
    case False
    with "1.prems"(3) show ?thesis
      using "1.IH" "1.prems"(1,2) step
      by (subst (asm) parseQuery.simps) (auto simp: Let_def split: if_splits sum.splits)
  qed
qed

lemma formContent_fold:
  "\<forall>kv\<in>set kvs. snd kv \<noteq> [] \<Longrightarrow>
   formContent kvs c = Some (fold (\<lambda>(k, vs) c. gomap_set k (VString (hd vs)) c) kvs c)"
proof (induction kvs arbitrary: c)
  case Nil
  then show ?case by simp
next
  case (Cons kv kvs)
  then show ?case by (cases kv; cases "snd kv") auto
qed

lemma fold_set_sorted:
  "sorted_wrt (<) (map fst c) \<Longrightarrow> sorted_wrt (<) (map fst (fold (\<lambda>(k, vs) c. gomap_set k (f vs) c) kvs c))"
  by (induction kvs arbitrary: c) (auto simp: sorted_gomap_set)

lemma fold_set_map_of:
  "distinct (map fst kvs) \<Longrightarrow>
   map_of (fold (\<lambda>(k, vs) c. gomap_set k (f vs) c) kvs c) k' =
     (case map_of kvs k' of Some vs \<Rightarrow> Some (f vs) | None \<Rightarrow> map_of c k')"
proof (induction kvs arbitrary: c)
  case Nil
  then show ?case by simp
next
  case (Cons kv kvs)
  obtain k vs where kv: "kv = (k, vs)" by (cases kv)
  from Cons.prems have d: "distinct (map fst kvs)" and nk: "k \<notin> fst ` set kvs" by (auto simp: kv)
  from nk have none: "map_of kvs k = None" by (simp add: map_of_eq_None_iff)
  show ?case using Cons.IH [OF d, of "gomap_set k (f vs) c"] none
    by (auto simp: kv map_of_gomap_set split: option.splits)
qed

lemma range_map_entry: "(k, v) \<in> set (range_map ord m) \<Longrightarrow> map_of m k = Some v"
  by (auto simp: range_map_def map_filter_def)

lemma range_map_keys:
  "set (ord (map fst m)) = set (map fst m) \<Longrightarrow> map fst (range_map ord m) = ord (map fst m)"
proof -
  assume s: "set (ord (map fst m)) = set (map fst m)"
  have "map fst (List.map_filter (\<lambda>k. map_option (Pair k) (map_of m k)) ks) = ks"
    if "set ks \<subseteq> set (map fst m)" for ks
    using that
  proof (induction ks)
    case Nil
    then show ?case by (simp add: map_filter_simps)
  next
    case (Cons k ks)
    then have "k \<in> fst ` set m" by simp
    then obtain v where "map_of m k = Some v"
      by (metis domD dom_map_of_conv_image_fst)
    with Cons show ?case by (simp add: map_filter_simps)
  qed
  with s show ?thesis by (simp add: range_map_def)
qed

lemma map_of_range_map:
  assumes "distinct (map fst m)" "range_order ord"
  shows "map_of (range_map ord m) = map_of m"
proof -
  from assms have d: "distinct (ord (map fst m))" and s: "set (ord (map fst m)) = set (map fst m)"
    by (auto simp: range_order_def)
  have keys: "map fst (range_map ord m) = ord (map fst m)" using s by (rule range_map_keys)
  show ?thesis
  proof
    fix k
    show "map_of (range_map ord m) k = map_of m k"
    proof (cases "map_of (range_map ord m) k")
      case None
      then have "k \<notin> fst ` set (range_map ord m)" by (simp add: map_of_eq_None_iff)
      then have "k \<notin> set (map fst m)" using keys s by (metis set_map)
      then have "map_of m k = None" by (simp add: map_of_eq_None_iff)
      with None show ?thesis by simp
    next
      case (Some v)
      then have "(k, v) \<in> set (range_map ord m)" by (rule map_of_SomeD)
      then show ?thesis using Some by (simp add: range_map_entry)
    qed
  qed
qed

lemma formContent_range:
  assumes sm: "sorted_wrt (<) (map fst m)" and ne: "\<forall>kv\<in>set m. snd kv \<noteq> []" and ro: "range_order ord"
  shows "formContent (range_map ord m) [] = Some (map (\<lambda>(k, vs). (k, VString (hd vs))) m)"
proof -
  let ?f = "\<lambda>vs. VString (hd vs)"
  let ?c = "fold (\<lambda>(k, vs) c. gomap_set k (?f vs) c) (range_map ord m) []"
  have dm: "distinct (map fst m)" using sm by (simp add: strict_sorted_iff)
  have "\<forall>kv\<in>set (range_map ord m). snd kv \<noteq> []"
  proof
    fix kv assume "kv \<in> set (range_map ord m)"
    then have "(fst kv, snd kv) \<in> set (range_map ord m)" by simp
    then have "map_of m (fst kv) = Some (snd kv)" by (rule range_map_entry)
    then have "(fst kv, snd kv) \<in> set m" by (rule map_of_SomeD)
    with ne show "snd kv \<noteq> []" by auto
  qed
  then have fc: "formContent (range_map ord m) [] = Some ?c" by (rule formContent_fold)
  have dr: "distinct (map fst (range_map ord m))"
    using dm ro range_map_keys [of ord m] by (auto simp: range_order_def)
  have s1: "sorted_wrt (<) (map fst ?c)" by (rule fold_set_sorted) simp
  have s2: "sorted_wrt (<) (map fst (map (\<lambda>(k, vs). (k, ?f vs)) m))"
    using sm by (simp add: case_prod_unfold comp_def)
  have "map_of ?c k = map_of (map (\<lambda>(k, vs). (k, ?f vs)) m) k" for k
    using fold_set_map_of [OF dr, of ?f "[]" k] map_of_range_map [OF dm ro]
    by (simp add: map_of_map split: option.splits)
  then have "map_of ?c = map_of (map (\<lambda>(k, vs). (k, ?f vs)) m)" by (rule ext)
  with s1 s2 have "?c = map (\<lambda>(k, vs). (k, ?f vs)) m" by (rule sorted_map_of_eq)
  with fc show ?thesis by simp
qed

lemma url_ParseQuery_inv:
  "url_ParseQuery s = (m, err) \<Longrightarrow> sorted_wrt (<) (map fst m) \<and> (\<forall>kv\<in>set m. snd kv \<noteq> [])"
  unfolding url_ParseQuery_def using parseQuery_inv [of "[]" None s m err] by simp

lemma map_of_filter_key:
  "map_of (filter (\<lambda>kv. fst kv \<noteq> k) m) k' = (if k' = k then None else map_of m k')"
  by (induction m) auto

subsection \<open>Response writers\<close>

lemma cors_keeps_status_body:
  "wStatus (WriteCorsActualRequestHeaders hs w) = wStatus w
   \<and> wBody (WriteCorsActualRequestHeaders hs w) = wBody w"
  unfolding WriteCorsActualRequestHeaders_def
  by (induction hs arbitrary: w) (auto simp: Header_Set_def)

lemma writeStatus_fields:
  "wStatus (writeStatus code w) = Some code \<and> wBody (writeStatus code w) = wBody w"
  by (simp add: writeStatus_def Header_Del_def split: option.splits)

lemma writeStatus_no_length:
  "map_of (wHeader w) ''Content-Length'' = None \<Longrightarrow>
   writeStatus code w = w\<lparr>wStatus := Some code, wContentLength := - 1\<rparr>"
  by (simp add: writeStatus_def)

text \<open>
  A header with a status that allows a body, written on a fresh writer that declares no
  content length, and then the body.
\<close>

lemma header_then_body:
  assumes "wStatus w = None" and "map_of (wHeader w) ''Content-Length'' = None"
    and "200 \<le> code" and "code \<le> 999" and "code \<noteq> 204" and "code \<noteq> 304"
  shows "WriteHeader code w = Inr (writeStatus code w)
       \<and> wStatus (Write b (writeStatus code w)) = Some code
       \<and> wBody (Write b (writeStatus code w)) = wBody w @ b
       \<and> wHeader (Write b (writeStatus code w)) = wHeader w"
proof -
  have hdr: "WriteHeader code w = Inr (writeStatus code w)"
    using assms(1,3,4) by (simp add: WriteHeader_def)
  have allowed: "bodyAllowedForStatus code"
    using assms(3,5,6) by (simp add: bodyAllowedForStatus_def)
  show ?thesis
    using hdr allowed
    by (cases "b = []") (simp_all add: writeStatus_no_length [OF assms(2)] Write_def Let_def)
qed

lemma http_Error_response:
  assumes "wStatus w = None"
  shows "\<exists>w'. http_Error w msg 400 = Inr w'
             \<and> wStatus w' = Some 400
             \<and> wBody w' = wBody w @ msg @ [CHR 0x0A]
             \<and> map_of (wHeader w') ''Content-Type'' = Some ''text/plain; charset=utf-8''"
proof -
  let ?h = "Header_Set ''X-Content-Type-Options'' ''nosniff''
              (Header_Set ''Content-Type'' ''text/plain; charset=utf-8''
                (Header_Del ''Content-Length'' w))"
  have fresh: "wStatus ?h = None" and body: "wBody ?h = wBody w"
    using assms by (simp_all add: Header_Set_def Header_Del_def)
  have nolen: "map_of (wHeader ?h) ''Content-Length'' = None"
    by (simp add: Header_Set_def Header_Del_def map_of_gomap_set map_of_filter_key)
  have ct: "map_of (wHeader ?h) ''Content-Type'' = Some ''text/plain; charset=utf-8''"
    by (simp add: Header_Set_def Header_Del_def map_of_gomap_set)
  from header_then_body [OF fresh nolen, of 400 "msg @ [CHR 0x0A]"] body ct
  show ?thesis by (simp add: http_Error_def)
qed

lemma newActionHandler_reply:
  assumes "decodeContent ord r = Decoded content"
    and "handler ((requestOutput method ord r ps)\<lparr>Content := content\<rparr>) = Inr results"
    and "FromMap rt results = Inr reply"
  shows "newActionHandler rt method handler ord w r ps =
           returned (writeReply reply (WriteCorsActualRequestHeaders (corsHeaders rt) w))
             [(requestOutput method ord r ps)\<lparr>Content := content\<rparr>]"
  using assms by (simp add: newActionHandler_def invokeHandler_def Let_def)

lemma rawBody_plain: "rawBody (plainRequest contentType b) = Decoded (VString b)"
  by (simp add: rawBody_def plainRequest_def)

lemma decodeContent_no_type: "decodeContent ord (plainRequest [] b) = Decoded (VString b)"
  by (simp add: decodeContent_def Header_Get_def rawBody_def plainRequest_def)

lemma writeReply_nil:
  assumes "Data reply = VNil" and "wStatus w = None"
    and "Code reply \<le> 0 \<or> Code reply = 101 \<or> (200 \<le> Code reply \<and> Code reply \<le> 999)"
  shows "\<exists>w'. writeReply reply w = Inr w'
             \<and> wBody w' = wBody w
             \<and> wStatus w' = Some (if Code reply > 0 then Code reply else 200)"
  using assms writeStatus_fields [of "Code reply" w] writeStatus_fields [of 200 w]
  by (auto simp: writeReply_def WriteHeader_def StatusOK_def)

lemma writeReply_string:
  assumes "Data reply = VString t" and "wStatus w = None"
    and "map_of (wHeader w) ''Content-Length'' = None"
    and "Code reply = 0 \<or> (200 \<le> Code reply \<and> Code reply \<le> 999 \<and> Code reply \<noteq> 204 \<and> Code reply \<noteq> 304)"
  shows "\<exists>w'. writeReply reply w = Inr w'
             \<and> wBody w' = wBody w @ t
             \<and> wStatus w' = Some (if Code reply = 0 then 200 else Code reply)
             \<and> map_of (wHeader w') ''Content-Type'' =
                 Some (case json_Unmarshal t of Inl err \<Rightarrow> ''text/plain; charset=UTF-8''
                       | Inr v \<Rightarrow> ''application/json; charset=UTF-8'')"
proof -
  let ?ct = "case json_Unmarshal t of Inl err \<Rightarrow> ''text/plain; charset=UTF-8''
             | Inr v \<Rightarrow> ''application/json; charset=UTF-8''"
  let ?code = "if Code reply = 0 then 200 else Code reply"
  let ?h = "Header_Set ''Content-Type'' ?ct w"
  have fresh: "wStatus ?h = None" and body: "wBody ?h = wBody w"
    using assms(2) by (simp_all add: Header_Set_def)
  have nolen: "map_of (wHeader ?h) ''Content-Length'' = None"
    using assms(3) by (simp add: Header_Set_def map_of_gomap_set)
  have ct: "map_of (wHeader ?h) ''Content-Type'' = Some ?ct"
    by (simp add: Header_Set_def map_of_gomap_set)
  have code: "200 \<le> ?code" "?code \<le> 999" "?code \<noteq> 204" "?code \<noteq> 304"
    using assms(4) by auto
  from header_then_body [OF fresh nolen code, of t] body ct assms(1)
  show ?thesis by (simp add: writeReply_def Let_def)
qed


lemma strconv_Itoa_50: "strconv_Itoa 50 = ''50''"
  by code_simp

lemma json_Unmarshal_hello: "json_Unmarshal ''hello'' = Inl (Err ''invalid character 'h' looking for beginning of value'')"
  by (simp add: json_Unmarshal_def stateBeginValue_def isSpace_def isDigit_def invalidChar_def quoteChar_def)


lemma range_map_values:
  assumes "\<forall>kv\<in>set m. snd kv \<noteq> []"
  shows "\<forall>kv\<in>set (range_map ord m). snd kv \<noteq> []"
proof
  fix kv assume "kv \<in> set (range_map ord m)"
  then have "(fst kv, snd kv) \<in> set (range_map ord m)" by simp
  then have "map_of m (fst kv) = Some (snd kv)" by (rule range_map_entry)
  then have "(fst kv, snd kv) \<in> set m" by (rule map_of_SomeD)
  with assms show "snd kv \<noteq> []" by auto
qed

text \<open>
  The panic of \<^verbatim>\<open>val[0]\<close> cannot happen: \<^verbatim>\<open>url.ParseQuery\<close> gives every key at least
  one value. So decoding the body never panics.
\<close>

lemma decodeContent_no_panic: "decodeContent ord r \<noteq> DecodePanic msg"
proof -
  have "formBody ord r \<noteq> DecodePanic msg"
  proof (cases "url_ParseQuery (fst (Body r))")
    case (Pair m err)
    from url_ParseQuery_inv [OF Pair] have "\<forall>kv\<in>set (range_map ord m). snd kv \<noteq> []"
      by (intro range_map_values) simp
    from formContent_fold [OF this] show ?thesis
      by (simp add: formBody_def Pair split: option.splits)
  qed
  moreover have "jsonBody r \<noteq> DecodePanic msg"
    by (simp add: jsonBody_def split: sum.splits)
  moreover have "multipartBody ord r \<noteq> DecodePanic msg"
    by (simp add: multipartBody_def split: sum.splits)
  moreover have "rawBody r \<noteq> DecodePanic msg"
    by (simp add: rawBody_def split: option.splits)
  ultimately show ?thesis by (simp add: decodeContent_def Let_def)
qed

lemma servedCalls_returned: "servedCalls (returned x calls) = calls"
  by (cases x) simp_all

lemma servedCalls_invokeHandler: "servedCalls (invokeHandler rt handler w out) = [out]"
  by (simp add: invokeHandler_def servedCalls_returned split: sum.splits)

text \<open>The business handler is called at most once.\<close>

lemma newActionHandler_calls_once:
  "length (servedCalls (newActionHandler rt method handler ord w r ps)) \<le> 1"
  by (cases "decodeContent ord r")
     (simp_all add: newActionHandler_def servedCalls_invokeHandler servedCalls_returned Let_def)

subsection \<open>Strings\<close>

lemma strings_HasPrefix_iff: "strings_HasPrefix s p \<longleftrightarrow> (\<exists>q. s = p @ q)"
  by (induction s p rule: strings_HasPrefix.induct) auto

lemma strings_Contains_iff: "strings_Contains s sub \<longleftrightarrow> (\<exists>p q. s = p @ sub @ q)"
proof (induction s)
  case Nil
  then show ?case by auto
next
  case (Cons c cs)
  show ?case
  proof
    assume "strings_Contains (c # cs) sub"
    then consider "strings_HasPrefix (c # cs) sub" | "strings_Contains cs sub" by auto
    then show "\<exists>p q. c # cs = p @ sub @ q"
    proof cases
      case 1
      then obtain q where "c # cs = sub @ q" by (auto simp: strings_HasPrefix_iff)
      then have "c # cs = [] @ sub @ q" by simp
      then show ?thesis by blast
    next
      case 2
      with Cons.IH obtain p q where "cs = p @ sub @ q" by auto
      then have "c # cs = (c # p) @ sub @ q" by simp
      then show ?thesis by blast
    qed
  next
    assume "\<exists>p q. c # cs = p @ sub @ q"
    then obtain p q where pq: "c # cs = p @ sub @ q" by auto
    show "strings_Contains (c # cs) sub"
    proof (cases p)
      case Nil
      with pq have "strings_HasPrefix (c # cs) sub" by (auto simp: strings_HasPrefix_iff)
      then show ?thesis by simp
    next
      case (Cons a p')
      with pq have "cs = p' @ sub @ q" by simp
      with Cons.IH have "strings_Contains cs sub" by auto
      then show ?thesis by simp
    qed
  qed
qed



subsection \<open>The route table\<close>

lemma Initialize_router:
  "Initialize upper NewServer s handlers = Inr srv \<Longrightarrow>
   initHandlers upper handlers [] [] = Inr (srvRouter srv)"
  by (auto simp: Initialize_def Let_def split: sum.splits option.splits)

lemma initHandlers_registered:
  "initHandlers upper hs pm tab = Inr tab' \<Longrightarrow> \<forall>e\<in>set tab. registered upper e \<Longrightarrow>
   \<forall>e\<in>set tab'. registered upper e"
proof (induction hs arbitrary: pm tab)
  case Nil
  then show ?case by simp
next
  case (Cons h hs)
  then obtain s where s: "hSettings h = Inr s" by (cases "hSettings h") auto
  let ?act = "(hsMethod s, hsPath s, actionHandler (strings_ToUpper upper (hsMethod s)) (Handle h))"
  let ?pre = "(''OPTIONS'', hsPath s, handleCorsPreflight :: 'a handle)"
  have new: "registered upper ?act" "registered upper ?pre" by (simp_all add: registered_def)
  show ?case
  proof (cases "map_of pm (hsPath s) = None")
    case True
    with Cons.prems(1) s
    have "initHandlers upper hs (gomap_set (hsPath s) (hsPath s) pm) (tab @ [?pre, ?act]) = Inr tab'" by simp
    moreover have "\<forall>e\<in>set (tab @ [?pre, ?act]). registered upper e" using Cons.prems(2) new by auto
    ultimately show ?thesis by (rule Cons.IH)
  next
    case False
    with Cons.prems(1) s have "initHandlers upper hs pm (tab @ [?act]) = Inr tab'" by auto
    moreover have "\<forall>e\<in>set (tab @ [?act]). registered upper e" using Cons.prems(2) new by auto
    ultimately show ?thesis by (rule Cons.IH)
  qed
qed

lemma initHandlers_preflights:
  "initHandlers upper hs pm tab = Inr tab' \<Longrightarrow>
   length (filter (isPreflight p) tab') =
     length (filter (isPreflight p) tab)
       + (if map_of pm p = None \<and> p \<in> set (handlerPaths hs) then 1 else 0)"
proof (induction hs arbitrary: pm tab)
  case Nil
  then show ?case by simp
next
  case (Cons h hs)
  then obtain s where s: "hSettings h = Inr s" by (cases "hSettings h") auto
  let ?act = "(hsMethod s, hsPath s, actionHandler (strings_ToUpper upper (hsMethod s)) (Handle h))"
  let ?pre = "(''OPTIONS'', hsPath s, handleCorsPreflight :: 'a handle)"
  have act: "\<not> isPreflight p ?act" and pre: "isPreflight p ?pre \<longleftrightarrow> hsPath s = p"
    by (simp_all add: isPreflight_def)
  show ?case
  proof (cases "map_of pm (hsPath s) = None")
    case True
    with Cons.prems s
    have "initHandlers upper hs (gomap_set (hsPath s) (hsPath s) pm) (tab @ [?pre, ?act]) = Inr tab'" by simp
    from Cons.IH [OF this] True show ?thesis
      using act pre by (auto simp: s map_of_gomap_set)
  next
    case False
    with Cons.prems s have "initHandlers upper hs pm (tab @ [?act]) = Inr tab'" by auto
    from Cons.IH [OF this] False show ?thesis
      using act by (auto simp: s)
  qed
qed


subsection \<open>Replies without data\<close>

text \<open>
  C7, as the code has it. When the reply of the business handler has no data
  (\<^verbatim>\<open>reply.Data == nil\<close>), the handler writes no body. For a code that \<^verbatim>\<open>WriteHeader\<close>
  takes as the status of the response, which is 101 and every code from 200 to 999, the
  status is the code of the reply; for a code that is 0 or less it is 200. An example is
  the reply with code 201 and no data: status 201, empty body.
\<close>

theorem reply_without_data:
  assumes "decodeContent ord r = Decoded content"
    and "handler ((requestOutput method ord r ps)\<lparr>Content := content\<rparr>) = Inr results"
    and "FromMap rt results = Inr reply"
    and "Data reply = VNil"
    and "wStatus w = None"
    and "Code reply \<le> 0 \<or> Code reply = 101 \<or> (200 \<le> Code reply \<and> Code reply \<le> 999)"
  shows "\<exists>w'. newActionHandler rt method handler ord w r ps =
                 Served w' [(requestOutput method ord r ps)\<lparr>Content := content\<rparr>]
             \<and> wBody w' = wBody w
             \<and> wStatus w' = Some (if Code reply > 0 then Code reply else 200)"
proof -
  let ?w = "WriteCorsActualRequestHeaders (corsHeaders rt) w"
  have fresh: "wStatus ?w = None" and body: "wBody ?w = wBody w"
    using assms(5) cors_keeps_status_body [of "corsHeaders rt" w] by simp_all
  from writeReply_nil [OF assms(4) fresh assms(6)] obtain w'
    where "writeReply reply ?w = Inr w'" and "wBody w' = wBody ?w"
      and "wStatus w' = Some (if Code reply > 0 then Code reply else 200)"
    by blast
  then show ?thesis
    using newActionHandler_reply [where handler = handler, OF assms(1-3), of w] body by simp
qed

theorem reply_without_data_witness:
  "map_option wStatus
     (servedResponse (newActionHandler specEnv ''POST'' (replies [(''code'', VInt 201)])
        (\<lambda>ks. ks) newWriter (plainRequest [] ''hi'') [])) = Some (Some 201)
   \<and> map_option wBody
     (servedResponse (newActionHandler specEnv ''POST'' (replies [(''code'', VInt 201)])
        (\<lambda>ks. ks) newWriter (plainRequest [] ''hi'') [])) = Some []"
proof -
  have h2: "replies [(''code'', VInt 201)]
              ((requestOutput ''POST'' (\<lambda>ks. ks) (plainRequest [] ''hi'') [])\<lparr>Content := VString ''hi''\<rparr>)
            = Inr [(''code'', VInt 201)]"
    by (simp add: replies_def)
  have h3: "FromMap specEnv [(''code'', VInt 201)] = Inr \<lparr>Code = 201, Data = VNil\<rparr>"
    by (simp add: specEnv_def Reply_FromMap_def)
  have h4: "Data \<lparr>Code = 201, Data = VNil\<rparr> = VNil" by simp
  have h5: "wStatus newWriter = None" by (simp add: newWriter_def)
  have h6: "Code \<lparr>Code = 201, Data = VNil\<rparr> \<le> 0 \<or> Code \<lparr>Code = 201, Data = VNil\<rparr> = 101
      \<or> (200 \<le> Code \<lparr>Code = 201, Data = VNil\<rparr> \<and> Code \<lparr>Code = 201, Data = VNil\<rparr> \<le> 999)"
    by simp
  show ?thesis
    using reply_without_data
      [where handler = "replies [(''code'', VInt 201)]", OF decodeContent_no_type h2 h3 h4 h5 h6]
    by (auto simp: newWriter_def)
qed

text \<open>
  C7 as the spec states it fails: the reply with code 50 and no data has a code greater
  than 0, but \<^verbatim>\<open>WriteHeader\<close> panics on a code below 100 and no status 50 is written.
\<close>

theorem reply_without_data_counterexample:
  "newActionHandler specEnv ''POST'' (replies [(''code'', VInt 50)])
      (\<lambda>ks. ks) newWriter (plainRequest [] ''hi'') []
     = Panicked ''invalid WriteHeader code 50''
         [(requestOutput ''POST'' (\<lambda>ks. ks) (plainRequest [] ''hi'') [])\<lparr>Content := VString ''hi''\<rparr>]
   \<and> map_option wStatus
       (servedResponse (newActionHandler specEnv ''POST'' (replies [(''code'', VInt 50)])
          (\<lambda>ks. ks) newWriter (plainRequest [] ''hi'') [])) \<noteq> Some (Some 50)"
  by (simp add: newActionHandler_def decodeContent_no_type invokeHandler_def replies_def specEnv_def
      Reply_FromMap_def writeReply_def WriteHeader_def Header_Set_def
      WriteCorsActualRequestHeaders_def newWriter_def Let_def strconv_Itoa_50)

subsection \<open>Replies with data\<close>

text \<open>
  C6, as the code has it. When the data of the reply is a string, the string is parsed as
  JSON only to choose the content type: \<^verbatim>\<open>application/json; charset=UTF-8\<close> when
  \<^verbatim>\<open>json.Unmarshal\<close> accepts it and \<^verbatim>\<open>text/plain; charset=UTF-8\<close> otherwise. When the
  code of the reply is 0 or a status that allows a body (from 200 to 999, other than 204
  and 304) and no content length was declared, the bytes of the string are the body,
  unchanged, and the status is the code of the reply, 200 when the code is 0. An example
  is the reply with code 0 and data \<^verbatim>\<open>hello\<close>: status 200, body \<^verbatim>\<open>hello\<close>, text/plain.
\<close>

theorem reply_with_string_data:
  assumes "decodeContent ord r = Decoded content"
    and "handler ((requestOutput method ord r ps)\<lparr>Content := content\<rparr>) = Inr results"
    and "FromMap rt results = Inr reply"
    and "Data reply = VString t"
    and "wStatus w = None"
    and "map_of (wHeader (WriteCorsActualRequestHeaders (corsHeaders rt) w)) ''Content-Length'' = None"
    and "Code reply = 0
       \<or> (200 \<le> Code reply \<and> Code reply \<le> 999 \<and> Code reply \<noteq> 204 \<and> Code reply \<noteq> 304)"
  shows "\<exists>w'. newActionHandler rt method handler ord w r ps =
                 Served w' [(requestOutput method ord r ps)\<lparr>Content := content\<rparr>]
             \<and> wBody w' = wBody w @ t
             \<and> wStatus w' = Some (if Code reply = 0 then 200 else Code reply)
             \<and> map_of (wHeader w') ''Content-Type'' =
                 Some (case json_Unmarshal t of Inl err \<Rightarrow> ''text/plain; charset=UTF-8''
                       | Inr v \<Rightarrow> ''application/json; charset=UTF-8'')"
proof -
  let ?w = "WriteCorsActualRequestHeaders (corsHeaders rt) w"
  from assms(5) have fresh: "wStatus ?w = None" and body: "wBody ?w = wBody w"
    using cors_keeps_status_body [of "corsHeaders rt" w] by simp_all
  from writeReply_string [OF assms(4) fresh assms(6,7)] body show ?thesis
    using newActionHandler_reply [where handler = handler, OF assms(1-3), of w] by auto
qed

theorem reply_with_string_data_witness:
  "map_option (\<lambda>w'. (wStatus w', wBody w', map_of (wHeader w') ''Content-Type''))
     (servedResponse (newActionHandler specEnv ''GET''
        (replies [(''code'', VInt 0), (''data'', VString ''hello'')])
        (\<lambda>ks. ks) newWriter (plainRequest [] []) []))
   = Some (Some 200, ''hello'', Some ''text/plain; charset=UTF-8'')"
proof -
  let ?res = "[(''code'', VInt 0), (''data'', VString ''hello'')]"
  let ?reply = "\<lparr>Code = 0, Data = VString ''hello''\<rparr>"
  have h2: "replies ?res ((requestOutput ''GET'' (\<lambda>ks. ks) (plainRequest [] []) [])\<lparr>Content := VString []\<rparr>)
            = Inr ?res"
    by (simp add: replies_def)
  have h3: "FromMap specEnv ?res = Inr ?reply"
    by (simp add: specEnv_def Reply_FromMap_def)
  have h4: "Data ?reply = VString ''hello''" by simp
  have h5: "wStatus newWriter = None" by (simp add: newWriter_def)
  have h6: "map_of (wHeader (WriteCorsActualRequestHeaders (corsHeaders specEnv) newWriter))
      ''Content-Length'' = None"
    by (simp add: WriteCorsActualRequestHeaders_def specEnv_def newWriter_def Header_Set_def)
  have h7: "Code ?reply = 0
      \<or> (200 \<le> Code ?reply \<and> Code ?reply \<le> 999 \<and> Code ?reply \<noteq> 204 \<and> Code ?reply \<noteq> 304)"
    by simp
  show ?thesis
    using reply_with_string_data [where handler = "replies ?res", OF decodeContent_no_type h2 h3 h4 h5 h6 h7]
    by (auto simp: newWriter_def json_Unmarshal_hello)
qed

text \<open>
  C6 as the spec states it fails: for the reply with code 204 and data \<^verbatim>\<open>hello\<close> the
  status 204 allows no body, \<^verbatim>\<open>Write\<close> refuses the bytes, and the body stays empty.
\<close>

theorem reply_with_string_data_counterexample:
  "map_option (\<lambda>w'. (wStatus w', wBody w'))
     (servedResponse (newActionHandler specEnv ''GET''
        (replies [(''code'', VInt 204), (''data'', VString ''hello'')])
        (\<lambda>ks. ks) newWriter (plainRequest [] []) []))
     = Some (Some 204, [])
   \<and> map_option wBody
     (servedResponse (newActionHandler specEnv ''GET''
        (replies [(''code'', VInt 204), (''data'', VString ''hello'')])
        (\<lambda>ks. ks) newWriter (plainRequest [] []) []))
     \<noteq> Some ''hello''"
  by (simp add: newActionHandler_def decodeContent_no_type invokeHandler_def replies_def specEnv_def
      Reply_FromMap_def writeReply_def WriteHeader_def writeStatus_def Write_def
      bodyAllowedForStatus_def Header_Set_def WriteCorsActualRequestHeaders_def newWriter_def Let_def)




subsection \<open>Errors\<close>

text \<open>
  C5, as the code has it. When decoding the body fails, or the business handler returns an
  error, the handler returns with the reply of \<^verbatim>\<open>http.Error\<close>: status 400, content
  type \<^verbatim>\<open>text/plain; charset=utf-8\<close>, and as body the text of the error followed by a
  newline. The business handler is not called after a decoding error and exactly once
  when it is the one that fails; \<^verbatim>\<open>FromMap\<close> and the reply writer are not reached.
\<close>

theorem decode_or_handler_error:
  assumes "wStatus w = None"
    and "decodeContent ord r = DecodeError err \<and> calls = []
       \<or> decodeContent ord r = Decoded content
          \<and> handler ((requestOutput method ord r ps)\<lparr>Content := content\<rparr>) = Inl err
          \<and> calls = [(requestOutput method ord r ps)\<lparr>Content := content\<rparr>]"
  shows "\<exists>w'. newActionHandler rt method handler ord w r ps = Served w' calls
             \<and> http_Error (WriteCorsActualRequestHeaders (corsHeaders rt) w) (error_Error err) 400 = Inr w'
             \<and> wStatus w' = Some 400
             \<and> wBody w' = wBody w @ error_Error err @ [CHR 0x0A]
             \<and> map_of (wHeader w') ''Content-Type'' = Some ''text/plain; charset=utf-8''"
proof -
  let ?w = "WriteCorsActualRequestHeaders (corsHeaders rt) w"
  have fresh: "wStatus ?w = None" and body: "wBody ?w = wBody w"
    using assms(1) cors_keeps_status_body [of "corsHeaders rt" w] by simp_all
  have served: "newActionHandler rt method handler ord w r ps
                  = returned (http_Error ?w (error_Error err) 400) calls"
    using assms(2)
    by (auto simp: newActionHandler_def invokeHandler_def Let_def StatusBadRequest_def)
  from http_Error_response [OF fresh, of "error_Error err"] body served
  show ?thesis by auto
qed

theorem decode_or_handler_error_witness:
  "map_option (\<lambda>w'. (wStatus w', wBody w'))
     (servedResponse (newActionHandler specEnv ''GET'' (fails (Err ''boom''))
        (\<lambda>ks. ks) newWriter (plainRequest [] []) []))
   = Some (Some 400, ''boom'' @ [CHR 0x0A])"
proof -
  let ?out = "(requestOutput ''GET'' (\<lambda>ks. ks) (plainRequest [] []) [])\<lparr>Content := VString []\<rparr>"
  have h1: "wStatus newWriter = None" by (simp add: newWriter_def)
  have h2: "decodeContent (\<lambda>ks. ks) (plainRequest [] []) = DecodeError (Err ''boom'') \<and> [?out] = []
       \<or> decodeContent (\<lambda>ks. ks) (plainRequest [] []) = Decoded (VString [])
          \<and> fails (Err ''boom'') ?out = Inl (Err ''boom'')
          \<and> [?out] = [?out]"
    by (simp add: decodeContent_no_type fails_def)
  show ?thesis
    using decode_or_handler_error [where handler = "fails (Err ''boom'')", OF h1 h2, of specEnv]
    by (auto simp: newWriter_def)
qed

text \<open>
  C5 as the spec states it fails: when the business handler fails with the error
  \<^verbatim>\<open>boom\<close>, the body of the 400 reply is not that text, it is the text and a newline.
\<close>

theorem decode_or_handler_error_counterexample:
  "map_option wBody
     (servedResponse (newActionHandler specEnv ''GET'' (fails (Err ''boom''))
        (\<lambda>ks. ks) newWriter (plainRequest [] []) []))
     = Some (''boom'' @ [CHR 0x0A])
   \<and> map_option wBody
     (servedResponse (newActionHandler specEnv ''GET'' (fails (Err ''boom''))
        (\<lambda>ks. ks) newWriter (plainRequest [] []) []))
     \<noteq> Some (error_Error (Err ''boom''))"
  by (simp add: newActionHandler_def decodeContent_no_type invokeHandler_def fails_def specEnv_def
      http_Error_def Write_def WriteHeader_def writeStatus_def bodyAllowedForStatus_def
      StatusBadRequest_def Header_Set_def Header_Del_def WriteCorsActualRequestHeaders_def
      newWriter_def Let_def)

text \<open>
  C4. With content type \<^verbatim>\<open>application/json\<close>, an empty body is no error: the content
  is nil and the request goes on to the business handler, which is called with it. Every
  other failure of the JSON decoder, as for the truncated body \<^verbatim>\<open>{\<close>, is answered with
  status 400 and the business handler is not called.
\<close>

theorem json_body_empty_or_malformed:
  assumes "Header_Get (Header r) ''Content-Type'' = ''application/json''"
    and "wStatus w = None"
  shows "(Body r = ([], None) \<longrightarrow>
            decodeContent ord r = Decoded VNil
            \<and> newActionHandler rt method handler ord w r ps =
                invokeHandler rt handler (WriteCorsActualRequestHeaders (corsHeaders rt) w)
                  ((requestOutput method ord r ps)\<lparr>Content := VNil\<rparr>)
            \<and> servedCalls (newActionHandler rt method handler ord w r ps) =
                [(requestOutput method ord r ps)\<lparr>Content := VNil\<rparr>])
       \<and> (json_Decoder_Decode (Body r) = Inl err \<and> err \<noteq> io_EOF \<longrightarrow>
            decodeContent ord r = DecodeError err
            \<and> (\<exists>w'. newActionHandler rt method handler ord w r ps = Served w' []
                   \<and> wStatus w' = Some 400))"
proof (intro conjI impI)
  assume empty: "Body r = ([], None)"
  have eof: "json_Decoder_Decode ([], None) = Inl io_EOF"
    by (simp add: json_Decoder_Decode_def)
  show nil: "decodeContent ord r = Decoded VNil"
    using assms(1) empty eof by (simp add: decodeContent_def jsonBody_def)
  then show call: "newActionHandler rt method handler ord w r ps =
      invokeHandler rt handler (WriteCorsActualRequestHeaders (corsHeaders rt) w)
        ((requestOutput method ord r ps)\<lparr>Content := VNil\<rparr>)"
    by (simp add: newActionHandler_def Let_def)
  show "servedCalls (newActionHandler rt method handler ord w r ps) =
      [(requestOutput method ord r ps)\<lparr>Content := VNil\<rparr>]"
    unfolding call by (rule servedCalls_invokeHandler)
next
  assume bad: "json_Decoder_Decode (Body r) = Inl err \<and> err \<noteq> io_EOF"
  then show dec: "decodeContent ord r = DecodeError err"
    using assms(1) by (simp add: decodeContent_def jsonBody_def)
  let ?w = "WriteCorsActualRequestHeaders (corsHeaders rt) w"
  have "wStatus ?w = None"
    using assms(2) cors_keeps_status_body [of "corsHeaders rt" w] by simp
  from http_Error_response [OF this, of "error_Error err"] dec
  show "\<exists>w'. newActionHandler rt method handler ord w r ps = Served w' [] \<and> wStatus w' = Some 400"
    by (auto simp: newActionHandler_def Let_def StatusBadRequest_def)
qed

theorem json_body_empty_or_malformed_witness:
  "servedCalls (newActionHandler specEnv ''POST'' (replies [(''code'', VInt 201)]) (\<lambda>ks. ks)
      newWriter (plainRequest ''application/json'' []) [])
     = [(requestOutput ''POST'' (\<lambda>ks. ks) (plainRequest ''application/json'' []) [])\<lparr>Content := VNil\<rparr>]
   \<and> json_Decoder_Decode (''{'', None) = Inl io_ErrUnexpectedEOF
   \<and> map_option wStatus
       (servedResponse (newActionHandler specEnv ''POST'' (replies [(''code'', VInt 201)]) (\<lambda>ks. ks)
          newWriter (plainRequest ''application/json'' ''{'') [])) = Some (Some 400)
   \<and> servedCalls (newActionHandler specEnv ''POST'' (replies [(''code'', VInt 201)]) (\<lambda>ks. ks)
        newWriter (plainRequest ''application/json'' ''{'') []) = []"
proof -
  have ct: "Header_Get (Header (plainRequest ''application/json'' b)) ''Content-Type'' = ''application/json''" for b
    by (simp add: plainRequest_def Header_Get_def)
  have fresh: "wStatus newWriter = None" by (simp add: newWriter_def)
  have empty: "Body (plainRequest ''application/json'' []) = ([], None)"
    by (simp add: plainRequest_def)
  have trunc: "json_Decoder_Decode (''{'', None) = Inl io_ErrUnexpectedEOF"
    by (simp add: json_Decoder_Decode_def stateBeginValue_def isSpace_def pushParseState_def
        maxNestingDepth_def)
  then have bad: "json_Decoder_Decode (Body (plainRequest ''application/json'' ''{'')) = Inl io_ErrUnexpectedEOF
      \<and> io_ErrUnexpectedEOF \<noteq> io_EOF"
    by (simp add: plainRequest_def)
  from json_body_empty_or_malformed
      [of "plainRequest ''application/json'' []" newWriter "\<lambda>ks. ks" specEnv "''POST''"
          "replies [(''code'', VInt 201)]" "[]" io_ErrUnexpectedEOF, OF ct fresh] empty
  have first: "servedCalls (newActionHandler specEnv ''POST'' (replies [(''code'', VInt 201)]) (\<lambda>ks. ks)
      newWriter (plainRequest ''application/json'' []) [])
     = [(requestOutput ''POST'' (\<lambda>ks. ks) (plainRequest ''application/json'' []) [])\<lparr>Content := VNil\<rparr>]"
    by (simp add: servedCalls_invokeHandler)
  from json_body_empty_or_malformed
      [of "plainRequest ''application/json'' ''{''" newWriter "\<lambda>ks. ks" specEnv "''POST''"
          "replies [(''code'', VInt 201)]" "[]" io_ErrUnexpectedEOF, OF ct fresh] bad
  have second: "\<exists>w'. newActionHandler specEnv ''POST'' (replies [(''code'', VInt 201)]) (\<lambda>ks. ks)
          newWriter (plainRequest ''application/json'' ''{'') [] = Served w' [] \<and> wStatus w' = Some 400"
    by simp
  from first second trunc show ?thesis by auto
qed

subsection \<open>Decoding the body\<close>

text \<open>
  C2, as the code has it. For a content type that is neither of the two exact ones, the
  multipart branch is taken exactly when the content type contains the text
  \<^verbatim>\<open>multipart/form-data\<close> somewhere (\<^verbatim>\<open>strings.Contains\<close>), a prefix being one such
  place; every other content type has its body decoded as the raw string.
\<close>

theorem content_type_dispatch:
  assumes "Header_Get (Header r) ''Content-Type'' = ct"
    and "ct \<noteq> ''application/x-www-form-urlencoded''"
    and "ct \<noteq> ''application/json''"
  shows "decodeContent ord r =
           (if \<exists>p q. ct = p @ ''multipart/form-data'' @ q then multipartBody ord r else rawBody r)
       \<and> (strings_HasPrefix ct ''multipart/form-data'' \<longrightarrow> decodeContent ord r = multipartBody ord r)"
proof -
  let ?mp = "''multipart/form-data''"
  have c: "(\<exists>p q. ct = p @ ?mp @ q) \<longleftrightarrow> strings_Contains ct ?mp"
    by (simp only: strings_Contains_iff)
  have p: "strings_Contains ct ?mp" if "strings_HasPrefix ct ?mp"
    using that unfolding strings_HasPrefix_iff strings_Contains_iff by (metis append_Nil)
  have d: "decodeContent ord r = (if strings_Contains ct ?mp then multipartBody ord r else rawBody r)"
    using assms by (simp add: decodeContent_def Let_def)
  show ?thesis
  proof (intro conjI impI)
    show "decodeContent ord r = (if \<exists>p q. ct = p @ ?mp @ q then multipartBody ord r else rawBody r)"
      unfolding c by (rule d)
  next
    assume "strings_HasPrefix ct ?mp"
    then have "strings_Contains ct ?mp" by (rule p)
    with d show "decodeContent ord r = multipartBody ord r" by simp
  qed
qed

theorem content_type_dispatch_witness:
  "decodeContent (\<lambda>ks. ks) (plainRequest ''text/plain'' ''hi'') = Decoded (VString ''hi'')
   \<and> decodeContent (\<lambda>ks. ks) (multipartRequest [(''f'', ''t.txt'', ''AB'')])
     = Decoded (VMap [(''body'', VNil),
         (''files'', VSlice [VMap [(''file'', VBytes ''AB''), (''fileName'', VString ''t.txt''),
            (''fileType'', VString ''text/plain''), (''key'', VString ''f''), (''size'', VInt 2)]])])"
proof -
  let ?up = "multipartRequest [(''f'', ''t.txt'', ''AB'')]"
  have ct1: "Header_Get (Header (plainRequest ''text/plain'' ''hi'')) ''Content-Type'' = ''text/plain''"
    by (simp add: plainRequest_def Header_Get_def)
  have no: "\<not> (\<exists>p q. ''text/plain'' = p @ ''multipart/form-data'' @ q)"
    unfolding strings_Contains_iff [symmetric] by simp
  have ct2: "Header_Get (Header ?up) ''Content-Type'' = ''multipart/form-data; boundary=x''"
    by (simp add: multipartRequest_def Header_Get_def)
  have pre: "strings_HasPrefix ''multipart/form-data; boundary=x'' ''multipart/form-data''"
    by simp
  have files: "multipartBody (\<lambda>ks. ks) ?up
     = Decoded (VMap [(''body'', VNil),
         (''files'', VSlice [VMap [(''file'', VBytes ''AB''), (''fileName'', VString ''t.txt''),
            (''fileType'', VString ''text/plain''), (''key'', VString ''f''), (''size'', VInt 2)]])])"
    by code_simp
  have "decodeContent (\<lambda>ks. ks) (plainRequest ''text/plain'' ''hi'') = rawBody (plainRequest ''text/plain'' ''hi'')"
    using content_type_dispatch [OF ct1, of "\<lambda>ks. ks", THEN conjunct1] by (simp only: no if_False) simp_all
  moreover have "decodeContent (\<lambda>ks. ks) ?up = multipartBody (\<lambda>ks. ks) ?up"
    using content_type_dispatch [OF ct2, of "\<lambda>ks. ks", THEN conjunct2] pre by (simp only: simp_thms) simp_all
  ultimately show ?thesis by (simp only: rawBody_plain files)
qed

text \<open>
  C2 as the spec states it fails: the content type \<^verbatim>\<open>x-multipart/form-data\<close> does not
  start with \<^verbatim>\<open>multipart/form-data\<close> and is neither exact type, but the multipart branch
  is taken (and answers that the request is not multipart) and the body is not decoded as
  the raw string.
\<close>

theorem content_type_dispatch_counterexample:
  "\<not> strings_HasPrefix ''x-multipart/form-data'' ''multipart/form-data''
   \<and> ''x-multipart/form-data'' \<noteq> ''application/x-www-form-urlencoded''
   \<and> ''x-multipart/form-data'' \<noteq> ''application/json''
   \<and> decodeContent (\<lambda>ks. ks) (plainRequest ''x-multipart/form-data'' ''hi'')
       = multipartBody (\<lambda>ks. ks) (plainRequest ''x-multipart/form-data'' ''hi'')
   \<and> decodeContent (\<lambda>ks. ks) (plainRequest ''x-multipart/form-data'' ''hi'') = DecodeError ErrNotMultipart
   \<and> decodeContent (\<lambda>ks. ks) (plainRequest ''x-multipart/form-data'' ''hi'') \<noteq> Decoded (VString ''hi'')"
  by (simp add: decodeContent_def Header_Get_def plainRequest_def multipartBody_def)

text \<open>
  C3. With content type \<^verbatim>\<open>application/x-www-form-urlencoded\<close> and a body that
  \<^verbatim>\<open>url.ParseQuery\<close> accepts, the content is the map that binds every key of the query
  to the first of its values (every key has one), whatever the order in which the runtime
  enumerates the parsed values. The body \<^verbatim>\<open>a=1&a=2&b=x\<close> gives \<^verbatim>\<open>{a: "1", b: "x"}\<close>.
\<close>

theorem form_body_first_values:
  assumes "Header_Get (Header r) ''Content-Type'' = ''application/x-www-form-urlencoded''"
    and "Body r = (s, None)"
    and "url_ParseQuery s = (m, None)"
    and "range_order ord"
  shows "decodeContent ord r = Decoded (VMap (map (\<lambda>(key, val). (key, VString (hd val))) m))
       \<and> (\<forall>kv\<in>set m. snd kv \<noteq> [])"
proof -
  from url_ParseQuery_inv [OF assms(3)]
  have sorted: "sorted_wrt (<) (map fst m)" and ne: "\<forall>kv\<in>set m. snd kv \<noteq> []" by simp_all
  from formContent_range [OF sorted ne assms(4)] assms(1-3)
  have "decodeContent ord r = Decoded (VMap (map (\<lambda>(key, val). (key, VString (hd val))) m))"
    by (simp add: decodeContent_def formBody_def)
  with ne show ?thesis by simp
qed

theorem form_body_first_values_witness:
  "decodeContent rev (plainRequest ''application/x-www-form-urlencoded'' ''a=1&a=2&b=x'')
     = Decoded (VMap [(''a'', VString ''1''), (''b'', VString ''x'')])"
proof -
  have ct: "Header_Get (Header (plainRequest ''application/x-www-form-urlencoded'' ''a=1&a=2&b=x'')) ''Content-Type''
      = ''application/x-www-form-urlencoded''"
    by (simp add: plainRequest_def Header_Get_def)
  have body: "Body (plainRequest ''application/x-www-form-urlencoded'' ''a=1&a=2&b=x'') = (''a=1&a=2&b=x'', None)"
    by (simp add: plainRequest_def)
  have parsed: "url_ParseQuery ''a=1&a=2&b=x'' = ([(''a'', [''1'', ''2'']), (''b'', [''x''])], None)"
    by code_simp
  have ord: "range_order rev" by (simp add: range_order_def)
  from form_body_first_values [OF ct body parsed ord] show ?thesis by simp
qed

text \<open>
  C9, as the code has it. The decoded content is a function of the request and, for a
  multipart body, of the order in which the runtime enumerates the file fields of the
  form (the loop ranges over a Go map): two decodings of one request agree when the
  content type does not take the multipart branch, whatever the two orders, and when both
  runs enumerate the file fields in the same order.
\<close>

theorem decoding_twice:
  assumes "range_order ord1" and "range_order ord2"
    and "\<not> strings_Contains (Header_Get (Header r) ''Content-Type'') ''multipart/form-data''
       \<or> (\<forall>form. ParseMultipartForm r = Inr form \<longrightarrow>
             ord1 (map fst (File form)) = ord2 (map fst (File form)))"
  shows "decodeContent ord1 r = decodeContent ord2 r"
proof -
  have form: "formBody ord1 r = formBody ord2 r"
  proof (cases "url_ParseQuery (fst (Body r))")
    case (Pair m err)
    from url_ParseQuery_inv [OF Pair]
    have sorted: "sorted_wrt (<) (map fst m)" and ne: "\<forall>kv\<in>set m. snd kv \<noteq> []" by simp_all
    from formContent_range [OF sorted ne assms(1)] formContent_range [OF sorted ne assms(2)]
    show ?thesis by (simp add: formBody_def Pair split: option.splits)
  qed
  show ?thesis
  proof (cases "strings_Contains (Header_Get (Header r) ''Content-Type'') ''multipart/form-data''")
    case False
    with form show ?thesis by (simp add: decodeContent_def Let_def)
  next
    case True
    with assms(3) have "\<forall>form. ParseMultipartForm r = Inr form \<longrightarrow>
        range_map ord1 (File form) = range_map ord2 (File form)"
      by (simp add: range_map_def)
    then have "multipartBody ord1 r = multipartBody ord2 r"
      by (simp add: multipartBody_def split: sum.splits)
    with form show ?thesis by (simp add: decodeContent_def Let_def)
  qed
qed

theorem decoding_twice_witness:
  "decodeContent (\<lambda>ks. ks) (plainRequest ''application/x-www-form-urlencoded'' ''b=x&a=1&a=2'')
     = decodeContent rev (plainRequest ''application/x-www-form-urlencoded'' ''b=x&a=1&a=2'')
   \<and> decodeContent rev (multipartRequest [(''f'', ''t.txt'', ''AB'')])
     = decodeContent (\<lambda>ks. ks) (multipartRequest [(''f'', ''t.txt'', ''AB'')])"
proof -
  have o1: "range_order (\<lambda>ks. ks)" and o2: "range_order rev"
    by (simp_all add: range_order_def)
  have h1: "\<not> strings_Contains
        (Header_Get (Header (plainRequest ''application/x-www-form-urlencoded'' ''b=x&a=1&a=2'')) ''Content-Type'')
        ''multipart/form-data''
     \<or> (\<forall>form. ParseMultipartForm (plainRequest ''application/x-www-form-urlencoded'' ''b=x&a=1&a=2'') = Inr form \<longrightarrow>
           (\<lambda>ks. ks) (map fst (File form)) = rev (map fst (File form)))"
    by (simp add: plainRequest_def)
  have h2: "\<not> strings_Contains
        (Header_Get (Header (multipartRequest [(''f'', ''t.txt'', ''AB'')])) ''Content-Type'')
        ''multipart/form-data''
     \<or> (\<forall>form. ParseMultipartForm (multipartRequest [(''f'', ''t.txt'', ''AB'')]) = Inr form \<longrightarrow>
           rev (map fst (File form)) = (\<lambda>ks. ks) (map fst (File form)))"
    by (auto simp: multipartRequest_def)
  from decoding_twice [OF o1 o2 h1] decoding_twice [OF o2 o1 h2] show ?thesis by simp
qed

text \<open>
  C9 as the spec states it fails: for a form with the file fields \<^verbatim>\<open>a\<close> and \<^verbatim>\<open>b\<close>,
  two enumeration orders that the runtime may choose give the files in different orders,
  so two decodings of the same request differ.
\<close>

theorem decoding_twice_counterexample:
  "range_order (\<lambda>ks. ks) \<and> range_order rev
   \<and> decodeContent (\<lambda>ks. ks) twoFields \<noteq> decodeContent rev twoFields"
proof -
  have "decodeContent (\<lambda>ks. ks) twoFields \<noteq> decodeContent rev twoFields"
    by code_simp
  then show ?thesis by (simp add: range_order_def)
qed

subsection \<open>Routes\<close>

text \<open>
  C8. After \<^verbatim>\<open>Initialize\<close> the route table holds exactly one preflight responder for
  every path of a handler and none for any other path, however many methods are
  registered on the path; it is registered under \<^verbatim>\<open>OPTIONS\<close>, and running it answers
  with the CORS negotiator and calls no business handler.
\<close>

theorem one_preflight_per_path:
  assumes "Initialize upper NewServer s handlers = Inr srv"
  shows "length (filter (isPreflight p) (srvRouter srv)) = (if p \<in> set (handlerPaths handlers) then 1 else 0)
       \<and> (\<forall>e\<in>set (srvRouter srv). isPreflight p e \<longrightarrow> fst e = ''OPTIONS'')
       \<and> serve rt handleCorsPreflight ord w r ps = Served (HandlePreflight rt w r) []"
proof -
  from assms have tab: "initHandlers upper handlers [] [] = Inr (srvRouter srv)"
    by (rule Initialize_router)
  from initHandlers_preflights [OF tab, of p]
  have one: "length (filter (isPreflight p) (srvRouter srv)) = (if p \<in> set (handlerPaths handlers) then 1 else 0)"
    by simp
  from initHandlers_registered [OF tab] have "\<forall>e\<in>set (srvRouter srv). registered upper e" by simp
  then have "fst e = ''OPTIONS''" if "e \<in> set (srvRouter srv)" and "isPreflight p e" for e
  proof -
    obtain a q h where e: "e = (a, q, h)" by (cases e)
    from that(2) have "h = handleCorsPreflight"
      by (cases h) (simp_all add: isPreflight_def e)
    moreover from \<open>\<forall>e\<in>set (srvRouter srv). registered upper e\<close> that(1) have "registered upper e" by simp
    ultimately show ?thesis by (simp add: registered_def e)
  qed
  with one show ?thesis by simp
qed

theorem one_preflight_per_path_witness:
  "length (filter (isPreflight ''/items'')
     [(''OPTIONS'', ''/items'', handleCorsPreflight),
      (''get'', ''/items'', actionHandler (strings_ToUpper kelvinUpper ''get'') (Handle getRoute)),
      (''POST'', ''/items'', actionHandler (strings_ToUpper kelvinUpper ''POST'') (Handle postRoute))]) = 1"
proof -
  let ?tab = "[(''OPTIONS'', ''/items'', handleCorsPreflight),
      (''get'', ''/items'', actionHandler (strings_ToUpper kelvinUpper ''get'') (Handle getRoute)),
      (''POST'', ''/items'', actionHandler (strings_ToUpper kelvinUpper ''POST'') (Handle postRoute))]"
  let ?s = "\<lparr>Port = 8080, EnableTLS = False, CertFile = [], KeyFile = []\<rparr>"
  have init: "Initialize kelvinUpper (\<lambda>a t. None) ?s [getRoute, postRoute]
      = Inr \<lparr>srvAddr = '':'' @ strconv_Itoa 8080, srvRouter = ?tab, srvTLS = None\<rparr>"
    by (simp add: Initialize_def getRoute_def postRoute_def)
  have paths: "''/items'' \<in> set (handlerPaths [getRoute, postRoute])"
    by (simp add: getRoute_def postRoute_def)
  from one_preflight_per_path [OF init, of "''/items''"] paths show ?thesis by simp
qed




end
